(* ===== verification/Prelude.thy ===== *)
theory Prelude
  imports Complex_Main "HOL-Library.Multiset" "HOL-Library.Sublist"
begin

text \<open>
  Shared vocabulary of the RepoReader development: the names of the model's basic types,
  the collection \<open>model_simps\<close> into which every component puts the equations its
  witnesses evaluate with, and generic lemmas on lists and strings that the component
  theories use.
\<close>

named_theorems model_simps "equations of the model's operations, used to evaluate concrete runs"

type_synonym url = string
type_synonym path = string
type_synonym ext = string

subsection \<open>Python's \<open>str.join\<close>\<close>

text \<open>\<open>sep.join(ws)\<close>: the words with the separator between each two of them.\<close>

fun py_join :: "string \<Rightarrow> string list \<Rightarrow> string" where
  "py_join sep [] = []"
| "py_join sep [w] = w"
| "py_join sep (w # v # ws) = w @ sep @ py_join sep (v # ws)"

declare py_join.simps [model_simps]

lemma py_join_Cons: "ws \<noteq> [] \<Longrightarrow> py_join sep (w # ws) = w @ sep @ py_join sep ws"
  by (cases ws) auto

lemma py_join_append_single:
  "ws \<noteq> [] \<Longrightarrow> py_join sep (ws @ [w]) = py_join sep ws @ sep @ w"
  by (induction sep ws rule: py_join.induct) auto

lemma length_py_join:
  "length (py_join sep ws) = sum_list (map length ws) + length sep * (length ws - 1)"
  by (induction sep ws rule: py_join.induct) auto

lemma set_py_join_subset:
  "set (py_join sep ws) \<subseteq> set sep \<union> \<Union> (set ` set ws)"
  by (induction sep ws rule: py_join.induct) auto

subsection \<open>Results as sums\<close>

text \<open>Raising is \<open>Inl\<close>; mapping the success value keeps an error as it is.\<close>

lemma map_sum_id_Inl [simp]: "map_sum id f r = Inl e \<longleftrightarrow> r = Inl e"
  by (cases r) auto

lemma map_sum_id_Inr [simp]: "map_sum id f r = Inr x \<longleftrightarrow> (\<exists>y. r = Inr y \<and> x = f y)"
  by (cases r) auto

lemma map_sum_Inr_id [simp]: "map_sum f id r = Inr x \<longleftrightarrow> r = Inr x"
  by (cases r) auto

lemma map_sum_Inl_id [simp]: "map_sum f id r = Inl e \<longleftrightarrow> (\<exists>e'. r = Inl e' \<and> e = f e')"
  by (cases r) auto

subsection \<open>Generic list facts\<close>

lemma sublist_concat_elem [intro]: "xs \<in> set xss \<Longrightarrow> sublist xs (concat xss)"
proof -
  assume "xs \<in> set xss"
  then obtain as bs where "xss = as @ xs # bs" by (meson split_list)
  then show ?thesis by simp
qed

lemma sublist_py_join: "w \<in> set ws \<Longrightarrow> sublist w (py_join sep ws)"
proof (induction sep ws rule: py_join.induct)
  case (3 sep u v ws)
  then show ?case by (auto intro: sublist_order.order_trans [OF _ sublist_append_leftI])
qed auto

lemma count_list_filter_sum:
  "sum_list (map (\<lambda>k. count_list (map f xs) k) ks) = length (filter (\<lambda>x. f x \<in> set ks) xs)"
  if "distinct ks"
  using that
proof (induction ks)
  case Nil
  then show ?case by simp
next
  case (Cons k ks)
  have "count_list (map f xs) k = length (filter (\<lambda>x. f x = k) xs)"
    by (induction xs) auto
  moreover have "length (filter (\<lambda>x. f x \<in> set (k # ks)) xs)
      = length (filter (\<lambda>x. f x = k) xs) + length (filter (\<lambda>x. f x \<in> set ks) xs)"
    using Cons.prems by (induction xs) auto
  ultimately show ?case using Cons by simp
qed

end
