(* ===== verification/Py_String.thy ===== *)
theory Py_String
  imports Prelude
begin

text \<open>
  The Python string operations that \<open>src/main.py\<close> applies to user input:
  \<open>str.split\<close> with a one-character separator (line 17), \<open>str.lower\<close> (line 65),
  and the whitespace normalisation of \<open>utils.format_user_question\<close> (line 68),
  with \<open>str(n)\<close> for the document numbers.  Characters are Isabelle's 256
  \<open>char\<close>s, read as the Latin-1 code points \<open>U+0000\<close> to \<open>U+00FF\<close> of a Python
  \<open>str\<close>; \<open>lower\<close> and \<open>isspace\<close> follow Python's Unicode tables on that range.
\<close>

subsection \<open>\<open>str.split(sep)\<close> with a one-character separator\<close>

text \<open>
  \<open>split_acc c cur s\<close> scans \<open>s\<close> with the current piece \<open>cur\<close>; every separator
  closes a piece, the end of the string closes the last one.  So an empty string gives
  \<open>['']\<close> and a trailing separator gives a trailing empty piece, as in Python.
\<close>

fun split_acc :: "char \<Rightarrow> string \<Rightarrow> string \<Rightarrow> string list" where
  "split_acc c cur [] = [cur]"
| "split_acc c cur (x # xs) =
     (if x = c then cur # split_acc c [] xs else split_acc c (cur @ [x]) xs)"

definition py_split :: "char \<Rightarrow> string \<Rightarrow> string list" where
  "py_split c s = split_acc c [] s"

declare split_acc.simps [model_simps] py_split_def [model_simps]

subsection \<open>\<open>str.lower()\<close>\<close>

text \<open>
  On Latin-1, Python lower-cases \<open>A\<close>..\<open>Z\<close> and \<open>U+00C0\<close>..\<open>U+00DE\<close> except the
  multiplication sign \<open>U+00D7\<close>, each to the code point 32 above; every other
  character is its own lower case.
\<close>

definition py_is_upper :: "char \<Rightarrow> bool" where
  "py_is_upper c =
     (let n = of_char c :: nat in (65 \<le> n \<and> n \<le> 90) \<or> (192 \<le> n \<and> n \<le> 222 \<and> n \<noteq> 215))"

definition py_lower_char :: "char \<Rightarrow> char" where
  "py_lower_char c = (if py_is_upper c then char_of (of_char c + (32::nat)) else c)"

definition py_lower :: "string \<Rightarrow> string" where
  "py_lower s = map py_lower_char s"

declare py_is_upper_def [model_simps] py_lower_char_def [model_simps] py_lower_def [model_simps]

subsection \<open>Whitespace: \<open>str.isspace\<close>, \<open>re.sub(r'\s+', ' ', q)\<close>, \<open>str.strip()\<close>\<close>

text \<open>
  Python's whitespace on Latin-1: \<open>\t \n \v \f \r\<close> (9 to 13), the separators
  \<open>U+001C\<close>..\<open>U+001F\<close>, space, \<open>U+0085\<close> and the no-break space \<open>U+00A0\<close>.
  The pattern \<open>\s\<close> of \<open>re\<close> on a \<open>str\<close> matches the same characters.
\<close>

definition py_isspace :: "char \<Rightarrow> bool" where
  "py_isspace c =
     (let n = of_char c :: nat in (9 \<le> n \<and> n \<le> 13) \<or> (28 \<le> n \<and> n \<le> 32) \<or> n = 133 \<or> n = 160)"

text \<open>\<open>re.sub(r'\s+', ' ', s)\<close>: every maximal run of whitespace becomes one space.\<close>

function collapse_ws :: "string \<Rightarrow> string" where
  "collapse_ws [] = []"
| "collapse_ws (x # xs) =
     (if py_isspace x then CHR '' '' # collapse_ws (dropWhile py_isspace xs)
      else x # collapse_ws xs)"
  by pat_completeness auto
termination
  by (relation "measure length") (auto simp: le_imp_less_Suc length_dropWhile_le)

definition py_strip :: "string \<Rightarrow> string" where
  "py_strip s = rev (dropWhile py_isspace (rev (dropWhile py_isspace s)))"

definition format_user_question :: "string \<Rightarrow> string" where
  "format_user_question q = py_strip (collapse_ws q)"

subsection \<open>The normal form that \<open>format_user_question\<close> produces\<close>

text \<open>No two whitespace characters next to each other.\<close>

fun no_double_ws :: "string \<Rightarrow> bool" where
  "no_double_ws (x # y # zs) = (\<not> (py_isspace x \<and> py_isspace y) \<and> no_double_ws (y # zs))"
| "no_double_ws _ = True"

definition ws_normal :: "string \<Rightarrow> bool" where
  "ws_normal s \<longleftrightarrow> no_double_ws s \<and> (\<forall>c \<in> set s. py_isspace c \<longrightarrow> c = CHR '' '')"

declare no_double_ws.simps [model_simps] ws_normal_def [model_simps]

subsection \<open>The reference: \<open>" ".join(q.split())\<close>\<close>

text \<open>
  \<open>str.split()\<close> without a separator: the maximal runs of non-whitespace characters, in
  order; leading, trailing and repeated whitespace gives no empty piece.  \<open>ws_lead\<close> and
  \<open>ws_trail\<close> are the single spaces that \<open>collapse_ws\<close> leaves at either end.
\<close>

function py_words :: "string \<Rightarrow> string list" where
  "py_words s =
     (case dropWhile py_isspace s of
        [] \<Rightarrow> []
      | c # cs \<Rightarrow> (c # takeWhile (\<lambda>x. \<not> py_isspace x) cs) # py_words (dropWhile (\<lambda>x. \<not> py_isspace x) cs))"
  by pat_completeness auto
termination
proof (relation "measure length")
  fix s c cs
  assume "dropWhile py_isspace s = c # cs"
  then have "length (c # cs) \<le> length s" by (metis length_dropWhile_le)
  then show "(dropWhile (\<lambda>x. \<not> py_isspace x) cs, s) \<in> measure length"
    using length_dropWhile_le [of "\<lambda>x. \<not> py_isspace x" cs] by simp
qed simp

declare py_words.simps [simp del]

definition ws_lead :: "string \<Rightarrow> string" where
  "ws_lead s = (if s \<noteq> [] \<and> py_isspace (hd s) then '' '' else [])"

definition ws_trail :: "string \<Rightarrow> string" where
  "ws_trail s = (if py_words s \<noteq> [] \<and> s \<noteq> [] \<and> py_isspace (last s) then '' '' else [])"

subsection \<open>\<open>str(n)\<close> for a natural number, and reading it back\<close>

fun nat_to_str :: "nat \<Rightarrow> string" where
  "nat_to_str n =
     (if n < 10 then [char_of (48 + n)] else nat_to_str (n div 10) @ [char_of (48 + n mod 10)])"

declare nat_to_str.simps [simp del]

definition str_to_nat :: "string \<Rightarrow> nat" where
  "str_to_nat s = foldl (\<lambda>a c. 10 * a + (of_char c - 48)) 0 s"

declare nat_to_str.simps [model_simps] str_to_nat_def [model_simps]

definition py_isdigit :: "char \<Rightarrow> bool" where
  "py_isdigit c \<longleftrightarrow> (48::nat) \<le> of_char c \<and> (of_char c :: nat) \<le> 57"

subsection \<open>\<open>repr\<close> of strings, lists and dictionaries, and exception messages\<close>

text \<open>
  \<open>repr(s)\<close> quotes with \<open>'\<close> unless the string contains \<open>'\<close> and no \<open>"\<close>; it
  escapes the backslash and the chosen quote, writes \<open>\n \r \t\<close> as escapes and every other
  non-printable Latin-1 character (below 32, 127 to 160, and the soft hyphen 173) as
  \<open>\xNN\<close> with lower-case hexadecimal digits.
\<close>

definition hex_digit :: "nat \<Rightarrow> char" where
  "hex_digit d = (if d < 10 then char_of (48 + d) else char_of (87 + d))"

definition py_printable :: "char \<Rightarrow> bool" where
  "py_printable c \<longleftrightarrow>
     (let n = of_char c :: nat in 32 \<le> n \<and> n \<noteq> 127 \<and> \<not> (128 \<le> n \<and> n \<le> 160) \<and> n \<noteq> 173)"

definition repr_char :: "char \<Rightarrow> char \<Rightarrow> string" where
  "repr_char q c =
     (if c = q \<or> c = CHR 0x5C then [CHR 0x5C, c]
      else if c = CHR 0x0A then [CHR 0x5C, CHR ''n'']
      else if c = CHR 0x0D then [CHR 0x5C, CHR ''r'']
      else if c = CHR 0x09 then [CHR 0x5C, CHR ''t'']
      else if py_printable c then [c]
      else [CHR 0x5C, CHR ''x'', hex_digit (of_char c div 16), hex_digit (of_char c mod 16)])"

definition py_repr_str :: "string \<Rightarrow> string" where
  "py_repr_str s =
     (let q = (if CHR 0x27 \<in> set s \<and> CHR 0x22 \<notin> set s then CHR 0x22 else CHR 0x27)
      in q # concat (map (repr_char q) s) @ [q])"

definition py_repr_list :: "string list \<Rightarrow> string" where
  "py_repr_list xs = ''['' @ py_join '', '' (map py_repr_str xs) @ '']''"

definition py_repr_counts :: "(string \<times> nat) list \<Rightarrow> string" where
  "py_repr_counts kvs = ''{'' @ py_join '', '' (map (\<lambda>(k, n). py_repr_str k @ '': '' @ nat_to_str n) kvs) @ ''}''"

text \<open>The exceptions of the program that \<open>except Exception\<close> catches, and \<open>str(e)\<close>.\<close>

datatype exc = ValueError string | KeyError string | EOFError | APIError string

fun exc_str :: "exc \<Rightarrow> string" where
  "exc_str (ValueError m) = m"
| "exc_str (KeyError k) = py_repr_str k"
| "exc_str EOFError = ''EOF when reading a line''"
| "exc_str (APIError m) = m"

declare hex_digit_def [model_simps] py_printable_def [model_simps] repr_char_def [model_simps]
  py_repr_str_def [model_simps] py_repr_list_def [model_simps] py_repr_counts_def [model_simps]
  exc_str.simps [model_simps]

subsection \<open>Properties of the string operations\<close>

lemma split_acc_not_Nil [simp]: "split_acc c cur s \<noteq> []"
  by (induction s arbitrary: cur) auto

lemma py_split_not_Nil [simp]: "py_split c s \<noteq> []"
  by (simp add: py_split_def)

lemma join_split_acc: "py_join [c] (split_acc c cur s) = cur @ s"
proof (induction s arbitrary: cur)
  case Nil
  then show ?case by simp
next
  case (Cons x xs)
  then show ?case by (simp add: py_join_Cons)
qed

lemma split_acc_pieces: "c \<notin> set cur \<Longrightarrow> w \<in> set (split_acc c cur s) \<Longrightarrow> c \<notin> set w"
proof (induction s arbitrary: cur)
  case Nil
  then show ?case by simp
next
  case (Cons x xs)
  show ?case
  proof (cases "x = c")
    case True
    with Cons.prems Cons.IH [of "[]"] show ?thesis by auto
  next
    case False
    with Cons.prems Cons.IH [of "cur @ [x]"] show ?thesis by auto
  qed
qed

lemma length_split_acc: "length (split_acc c cur s) = count_list s c + 1"
  by (induction s arbitrary: cur) auto

lemma last_split_acc:
  "c \<notin> set cur \<Longrightarrow> last (split_acc c cur s) =
     (if c \<in> set s then rev (takeWhile (\<lambda>x. x \<noteq> c) (rev s))
      else cur @ s)"
proof (induction s arbitrary: cur)
  case Nil
  then show ?case by simp
next
  case (Cons x xs)
  then show ?case
    by (auto simp: takeWhile_append)
qed

lemma length_py_lower [simp]: "length (py_lower s) = length s"
  by (simp add: py_lower_def)

lemma of_char_lower_upper:
  "py_is_upper c \<Longrightarrow> of_char (py_lower_char c) = of_char c + (32::nat)"
  by (auto simp: py_lower_char_def py_is_upper_def Let_def)

text \<open>
  Which characters lower-case to a given character \<open>x\<close> that is not itself upper
  case: \<open>x\<close>, and the upper-case letter 32 below it, if there is one.
\<close>

lemma py_lower_char_eq_iff:
  assumes "\<not> py_is_upper x"
  shows "py_lower_char c = x \<longleftrightarrow>
           c = x \<or> (py_is_upper c \<and> of_char c + (32::nat) = of_char x)"
proof (cases "py_is_upper c")
  case True
  then have "of_char (py_lower_char c) = of_char c + (32::nat)"
    by (rule of_char_lower_upper)
  moreover have "c \<noteq> x" using True assms by auto
  ultimately show ?thesis using True
    by (metis of_char_eq_iff)
next
  case False
  then show ?thesis by (simp add: py_lower_char_def)
qed

lemma py_isspace_space [simp]: "py_isspace CHR '' ''"
  by (simp add: py_isspace_def)

declare py_isspace_def [model_simps] collapse_ws.simps [model_simps]
  py_strip_def [model_simps] format_user_question_def [model_simps]

lemma no_double_ws_Cons:
  "no_double_ws (x # xs) \<longleftrightarrow> no_double_ws xs \<and> (xs \<noteq> [] \<longrightarrow> \<not> (py_isspace x \<and> py_isspace (hd xs)))"
  by (cases xs) auto

lemma no_double_ws_append:
  "no_double_ws (xs @ ys) \<longleftrightarrow> no_double_ws xs \<and> no_double_ws ys \<and>
     (xs \<noteq> [] \<and> ys \<noteq> [] \<longrightarrow> \<not> (py_isspace (last xs) \<and> py_isspace (hd ys)))"
  by (induction xs) (auto simp: no_double_ws_Cons)

lemma no_double_ws_rev [simp]: "no_double_ws (rev xs) \<longleftrightarrow> no_double_ws xs"
  by (induction xs) (auto simp: no_double_ws_append no_double_ws_Cons hd_rev last_rev)

lemma no_double_ws_dropWhile: "no_double_ws xs \<Longrightarrow> no_double_ws (dropWhile P xs)"
  by (metis no_double_ws_append takeWhile_dropWhile_id)

lemma no_double_ws_strip: "no_double_ws s \<Longrightarrow> no_double_ws (py_strip s)"
  by (simp add: py_strip_def no_double_ws_dropWhile)

lemma set_py_strip: "set (py_strip s) \<subseteq> set s"
proof -
  have sub: "set (dropWhile P xs) \<subseteq> set xs" for P and xs :: string
    by (auto dest: set_dropWhileD)
  show ?thesis
    unfolding py_strip_def set_rev
    using sub [of py_isspace "rev (dropWhile py_isspace s)"] sub [of py_isspace s] by simp
qed

lemma collapse_ws_hd:
  "collapse_ws xs = y # ys \<Longrightarrow> py_isspace y \<Longrightarrow> xs \<noteq> [] \<and> py_isspace (hd xs)"
  by (cases xs) (auto split: if_splits)

lemma no_double_ws_collapse: "no_double_ws (collapse_ws s)"
proof (induction s rule: collapse_ws.induct)
  case 1
  then show ?case by simp
next
  case (2 x xs)
  show ?case
  proof (cases "py_isspace x")
    case True
    have "\<not> py_isspace (hd (collapse_ws (dropWhile py_isspace xs)))"
      if "collapse_ws (dropWhile py_isspace xs) \<noteq> []"
      using that collapse_ws_hd [of "dropWhile py_isspace xs"] hd_dropWhile
      by (metis list.exhaust_sel)
    with True "2.IH"(1) show ?thesis by (simp add: no_double_ws_Cons)
  next
    case False
    with "2.IH"(2) show ?thesis by (simp add: no_double_ws_Cons)
  qed
qed

lemma collapse_ws_spaces: "c \<in> set (collapse_ws s) \<Longrightarrow> py_isspace c \<Longrightarrow> c = CHR '' ''"
proof (induction s rule: collapse_ws.induct)
  case 1
  then show ?case by simp
next
  case (2 x xs)
  then show ?case by (cases "py_isspace x") auto
qed

lemma ws_normal_collapse: "ws_normal (collapse_ws s)"
  by (simp add: ws_normal_def no_double_ws_collapse collapse_ws_spaces)

lemma ws_normal_strip: "ws_normal s \<Longrightarrow> ws_normal (py_strip s)"
  using set_py_strip by (fastforce simp: ws_normal_def no_double_ws_strip)

lemma collapse_ws_normal_id: "ws_normal s \<Longrightarrow> collapse_ws s = s"
proof (induction s rule: collapse_ws.induct)
  case 1
  then show ?case by simp
next
  case (2 x xs)
  have xs: "ws_normal xs" and x: "py_isspace x \<Longrightarrow> x = CHR '' ''"
    and nxt: "xs \<noteq> [] \<Longrightarrow> \<not> (py_isspace x \<and> py_isspace (hd xs))"
    using "2.prems" by (auto simp: ws_normal_def no_double_ws_Cons)
  show ?case
  proof (cases "py_isspace x")
    case True
    with nxt have "dropWhile py_isspace xs = xs" by (cases xs) auto
    with True x xs "2.IH"(1) show ?thesis by simp
  next
    case False
    with xs "2.IH"(2) show ?thesis by simp
  qed
qed

lemma last_dropWhile: "dropWhile P xs \<noteq> [] \<Longrightarrow> last (dropWhile P xs) = last xs"
  by (metis last_append takeWhile_dropWhile_id)

lemma strip_ends:
  "py_strip s \<noteq> [] \<Longrightarrow> \<not> py_isspace (hd (py_strip s)) \<and> \<not> py_isspace (last (py_strip s))"
proof -
  assume ne: "py_strip s \<noteq> []"
  define a where "a = dropWhile py_isspace s"
  define b where "b = dropWhile py_isspace (rev a)"
  have strip: "py_strip s = rev b" by (simp add: py_strip_def a_def b_def)
  with ne have "b \<noteq> []" by simp
  then have "a \<noteq> []" by (auto simp: b_def)
  have "\<not> py_isspace (hd b)" using \<open>b \<noteq> []\<close> unfolding b_def by (rule hd_dropWhile)
  moreover have "last b = hd a"
    using \<open>b \<noteq> []\<close> \<open>a \<noteq> []\<close> by (simp add: b_def last_dropWhile last_rev)
  moreover have "\<not> py_isspace (hd a)" using \<open>a \<noteq> []\<close> unfolding a_def by (rule hd_dropWhile)
  ultimately show ?thesis using strip \<open>b \<noteq> []\<close> by (simp add: hd_rev last_rev)
qed

lemma strip_fixed:
  "xs = [] \<or> (\<not> py_isspace (hd xs) \<and> \<not> py_isspace (last xs)) \<Longrightarrow> py_strip xs = xs"
proof (cases xs rule: rev_cases)
  case (snoc ys y)
  moreover assume "xs = [] \<or> (\<not> py_isspace (hd xs) \<and> \<not> py_isspace (last xs))"
  ultimately show ?thesis
    by (cases ys) (auto simp: py_strip_def)
qed (simp add: py_strip_def)

lemma strip_strip: "py_strip (py_strip s) = py_strip s"
  using strip_ends strip_fixed by blast

lemma filter_dropWhile_same:
  "filter (\<lambda>c. \<not> P c) (dropWhile P xs) = filter (\<lambda>c. \<not> P c) xs"
  by (induction xs) auto

lemma filter_collapse_ws:
  "filter (\<lambda>c. \<not> py_isspace c) (collapse_ws s) = filter (\<lambda>c. \<not> py_isspace c) s"
proof (induction s rule: collapse_ws.induct)
  case 1
  then show ?case by simp
next
  case (2 x xs)
  then show ?case by (cases "py_isspace x") (simp_all add: filter_dropWhile_same)
qed

lemma filter_strip:
  "filter (\<lambda>c. \<not> py_isspace c) (py_strip s) = filter (\<lambda>c. \<not> py_isspace c) s"
  unfolding py_strip_def by (simp add: filter_dropWhile_same rev_filter [symmetric])

lemma of_char_digit [simp]: "d < 10 \<Longrightarrow> of_char (char_of (48 + d)) = 48 + (d::nat)"
  by simp

lemma nat_to_str_not_Nil [simp]: "nat_to_str n \<noteq> []"
  by (subst nat_to_str.simps) simp

lemma nat_to_str_digits: "c \<in> set (nat_to_str n) \<Longrightarrow> py_isdigit c"
proof (induction n rule: nat_to_str.induct)
  case (1 n)
  then show ?case
    by (subst (asm) nat_to_str.simps) (auto simp: py_isdigit_def split: if_splits)
qed

subsection \<open>\<open>format_user_question\<close> is \<open>" ".join(q.split())\<close>\<close>

lemma py_words_Nil:
  assumes "dropWhile py_isspace s = []"
  shows "py_words s = []"
  by (subst py_words.simps) (simp only: assms list.case)

lemma py_words_Cons:
  assumes "dropWhile py_isspace s = c # cs"
  shows "py_words s = (c # takeWhile (\<lambda>x. \<not> py_isspace x) cs) # py_words (dropWhile (\<lambda>x. \<not> py_isspace x) cs)"
  by (subst py_words.simps) (simp only: assms list.case)

lemma py_words_eq_Nil: "py_words s = [] \<longleftrightarrow> dropWhile py_isspace s = []"
  by (cases "dropWhile py_isspace s") (simp_all add: py_words_Nil py_words_Cons)

lemma collapse_ws_spaces_prefix:
  "sp \<noteq> [] \<Longrightarrow> list_all py_isspace sp \<Longrightarrow> (t = [] \<or> \<not> py_isspace (hd t)) \<Longrightarrow>
     collapse_ws (sp @ t) = CHR '' '' # collapse_ws t"
proof (cases sp)
  case (Cons x xs)
  assume "list_all py_isspace sp" and t: "t = [] \<or> \<not> py_isspace (hd t)"
  with Cons have "dropWhile py_isspace (xs @ t) = t"
    by (cases t) (auto simp: dropWhile_append list_all_iff)
  with Cons \<open>list_all py_isspace sp\<close> show ?thesis by simp
qed simp

lemma collapse_ws_word_prefix:
  "list_all (\<lambda>x. \<not> py_isspace x) w \<Longrightarrow> collapse_ws (w @ r) = w @ collapse_ws r"
  by (induction w) auto

lemma collapse_ws_words:
  "collapse_ws s = ws_lead s @ py_join '' '' (py_words s) @ ws_trail s"
proof (induction s rule: py_words.induct)
  case (1 s)
  show ?case
  proof (cases "dropWhile py_isspace s")
    case Nil
    then have sp: "list_all py_isspace s" by (simp add: dropWhile_eq_Nil_conv list_all_iff)
    have "collapse_ws s = (if s = [] then [] else '' '')"
    proof (cases s)
      case (Cons x xs)
      with sp show ?thesis using collapse_ws_spaces_prefix [of s "[]"] by simp
    qed simp
    with Nil sp show ?thesis
      by (cases s) (simp_all add: ws_lead_def ws_trail_def py_words_Nil)
  next
    case (Cons c cs)
    define sp where "sp = takeWhile py_isspace s"
    define w where "w = c # takeWhile (\<lambda>x. \<not> py_isspace x) cs"
    define r where "r = dropWhile (\<lambda>x. \<not> py_isspace x) cs"
    have s: "s = sp @ w @ r"
      using Cons takeWhile_dropWhile_id [of py_isspace s] takeWhile_dropWhile_id [of "\<lambda>x. \<not> py_isspace x" cs]
      by (metis append_Cons sp_def w_def r_def)
    have c: "\<not> py_isspace c" using Cons hd_dropWhile [of py_isspace s] by fastforce
    have spsp: "list_all py_isspace sp" by (auto simp: sp_def list_all_iff dest: set_takeWhileD)
    have wn: "list_all (\<lambda>x. \<not> py_isspace x) w"
      using c by (auto simp: w_def list_all_iff dest: set_takeWhileD)
    have rh: "r = [] \<or> py_isspace (hd r)"
      unfolding r_def by (metis hd_dropWhile)
    have words: "py_words s = w # py_words r" using py_words_Cons [OF Cons] by (simp add: w_def r_def)
    have ih: "collapse_ws r = ws_lead r @ py_join '' '' (py_words r) @ ws_trail r"
      using "1.IH" [OF Cons] by (simp add: r_def)
    have cs: "collapse_ws s = ws_lead s @ w @ collapse_ws r"
    proof (cases "sp = []")
      case True
      then show ?thesis using s c collapse_ws_word_prefix [OF wn]
        by (simp add: ws_lead_def w_def)
    next
      case False
      then have "collapse_ws s = CHR '' '' # collapse_ws (w @ r)"
        using s spsp collapse_ws_spaces_prefix [of sp "w @ r"] by (simp add: w_def c)
      moreover have "ws_lead s = '' ''"
        using False s spsp by (cases sp) (simp_all add: ws_lead_def)
      ultimately show ?thesis using collapse_ws_word_prefix [OF wn] by simp
    qed
    show ?thesis
    proof (cases "py_words r = []")
      case True
      then have rsp: "list_all py_isspace r"
        by (simp add: py_words_eq_Nil dropWhile_eq_Nil_conv list_all_iff)
      have "collapse_ws r = (if r = [] then [] else '' '')"
        using ih True rh by (auto simp: ws_lead_def ws_trail_def)
      moreover have "ws_trail s = (if r = [] then [] else '' '')"
      proof (cases "r = []")
        case True
        then have "last s = last w" using s by (simp add: w_def)
        moreover have "\<not> py_isspace (last w)" using wn by (simp add: w_def list_all_iff)
        ultimately show ?thesis using True by (simp add: ws_trail_def)
      next
        case False
        then have "last s = last r" using s by simp
        then show ?thesis using False rsp words s by (simp add: ws_trail_def list_all_iff)
      qed
      ultimately show ?thesis using cs words True by simp
    next
      case False
      then have rne: "r \<noteq> []" by (auto simp: py_words_Nil)
      then have "ws_lead r = '' ''" using rh by (simp add: ws_lead_def)
      moreover have "ws_trail s = ws_trail r"
        using rne s words False by (simp add: ws_trail_def)
      moreover obtain v vs where "py_words r = v # vs" using False by (cases "py_words r") auto
      ultimately show ?thesis using cs ih words by simp
    qed
  qed
qed

lemma py_words_words:
  "v \<in> set (py_words s) \<Longrightarrow> v \<noteq> [] \<and> list_all (\<lambda>x. \<not> py_isspace x) v"
proof (induction s rule: py_words.induct)
  case (1 s)
  show ?case
  proof (cases "dropWhile py_isspace s")
    case Nil
    then show ?thesis using "1.prems" by (simp add: py_words_Nil)
  next
    case (Cons c cs)
    have c: "\<not> py_isspace c" using Cons hd_dropWhile [of py_isspace s] by fastforce
    have "v = c # takeWhile (\<lambda>x. \<not> py_isspace x) cs
        \<or> v \<in> set (py_words (dropWhile (\<lambda>x. \<not> py_isspace x) cs))"
      using "1.prems" py_words_Cons [OF Cons] by simp
    then show ?thesis
    proof
      assume "v = c # takeWhile (\<lambda>x. \<not> py_isspace x) cs"
      with c show ?thesis by (auto simp: list_all_iff dest: set_takeWhileD)
    next
      assume "v \<in> set (py_words (dropWhile (\<lambda>x. \<not> py_isspace x) cs))"
      then show ?thesis by (rule "1.IH" [OF Cons])
    qed
  qed
qed

lemma py_join_hd_last:
  "\<forall>v \<in> set ws. v \<noteq> [] \<Longrightarrow> ws \<noteq> [] \<Longrightarrow>
     py_join sep ws \<noteq> [] \<and> hd (py_join sep ws) = hd (hd ws) \<and> last (py_join sep ws) = last (last ws)"
  by (induction sep ws rule: py_join.induct) auto

lemma py_join_ends:
  assumes "\<forall>v \<in> set ws. v \<noteq> [] \<and> list_all (\<lambda>x. \<not> py_isspace x) v"
  shows "py_join '' '' ws = [] \<or>
    (\<not> py_isspace (hd (py_join '' '' ws)) \<and> \<not> py_isspace (last (py_join '' '' ws)))"
proof (cases ws)
  case (Cons v vs)
  then have "hd (py_join '' '' ws) = hd v" "last (py_join '' '' ws) = last (last ws)"
    using py_join_hd_last [of ws "'' ''"] assms by auto
  moreover have "last ws \<in> set ws" using Cons by simp
  ultimately show ?thesis using assms Cons by (auto simp: list_all_iff)
qed simp

lemma strip_padded:
  assumes "list_all py_isspace a" and "list_all py_isspace b"
    and "j = [] \<or> (\<not> py_isspace (hd j) \<and> \<not> py_isspace (last j))"
  shows "py_strip (a @ j @ b) = j"
proof (cases "j = []")
  case True
  have "\<forall>x \<in> set (a @ j @ b). py_isspace x" using True assms(1,2) by (auto simp: list_all_iff)
  then have d: "dropWhile py_isspace (a @ j @ b) = []" by (simp only: dropWhile_eq_Nil_conv)
  show ?thesis unfolding py_strip_def d using True by simp
next
  case False
  then obtain x xs where j: "j = x # xs" by (cases j) auto
  have "dropWhile py_isspace (a @ j @ b) = j @ b"
    using assms(1,3) j by (simp add: dropWhile_append list_all_iff)
  moreover have "dropWhile py_isspace (rev b @ rev j) = rev j"
    using assms(2,3) False by (cases j rule: rev_cases) (simp_all add: dropWhile_append list_all_iff)
  ultimately show ?thesis by (simp add: py_strip_def)
qed

lemma format_user_question_words:
  "format_user_question s = py_join '' '' (py_words s)"
proof -
  have "list_all py_isspace (ws_lead s)" "list_all py_isspace (ws_trail s)"
    by (simp_all add: ws_lead_def ws_trail_def)
  moreover have "\<forall>v \<in> set (py_words s). v \<noteq> [] \<and> list_all (\<lambda>x. \<not> py_isspace x) v"
    using py_words_words by blast
  ultimately show ?thesis
    unfolding format_user_question_def collapse_ws_words
    by (intro strip_padded py_join_ends)
qed

end
