(* ===== verification/Template.thy ===== *)
theory Template
  imports Py_String
begin

text \<open>
  The prompt of \<open>src/main.py\<close> (lines 29 to 57): the template text, the list of input
  variables given to \<open>PromptTemplate\<close>, and the \<open>str.format\<close>-style rendering that
  fills the template's fields from keyword arguments.  Python's format-string reader
  (\<open>string.Formatter.parse\<close>) is modelled on the fragment the program uses: literal
  text, doubled braces, and fields \<open>{name}\<close>; a field with a conversion, a format
  specification, an attribute or an index, and a positional field \<open>{}\<close>, are
  reported as errors of the model instead of being interpreted.
\<close>

subsection \<open>Format strings: segments, reader, printer\<close>

datatype seg = Lit string | Slot string

datatype fmt_error =
    Single_close       \<comment> \<open>\<open>ValueError: Single '}' encountered in format string\<close>\<close>
  | Single_open        \<comment> \<open>\<open>ValueError: Single '{' encountered in format string\<close>\<close>
  | Expected_close     \<comment> \<open>\<open>ValueError: expected '}' before end of string\<close>\<close>
  | Unexpected_open    \<comment> \<open>\<open>ValueError: unexpected '{' in field name\<close>\<close>
  | Unsupported_field  \<comment> \<open>a field with \<open>!\<close>, \<open>:\<close>, \<open>.\<close> or \<open>[\<close>: outside the model\<close>
  | Positional_field   \<comment> \<open>\<open>{}\<close>: \<open>IndexError\<close> when only keywords are given\<close>
  | Key_error string   \<comment> \<open>\<open>KeyError\<close>: a field with no value\<close>

definition lit_seg :: "string \<Rightarrow> seg list" where
  "lit_seg s = (if s = [] then [] else [Lit s])"

definition field_char :: "char \<Rightarrow> bool" where
  "field_char c \<longleftrightarrow> c \<notin> set ''{}!:.[''"

text \<open>
  The reader keeps the literal text read so far (\<open>lit\<close>) and, inside a field, the
  name read so far; a field closes the pending literal.
\<close>

fun parse_lit :: "string \<Rightarrow> string \<Rightarrow> fmt_error + seg list"
and parse_field :: "string \<Rightarrow> string \<Rightarrow> string \<Rightarrow> fmt_error + seg list" where
  "parse_lit lit [] = Inr (lit_seg lit)"
| "parse_lit lit (x # xs) =
     (if x = CHR ''{'' then
        (case xs of
          [] \<Rightarrow> Inl Single_open
        | y # ys \<Rightarrow> if y = CHR ''{'' then parse_lit (lit @ [x]) ys else parse_field lit [] xs)
      else if x = CHR ''}'' then
        (case xs of
          [] \<Rightarrow> Inl Single_close
        | y # ys \<Rightarrow> if y = CHR ''}'' then parse_lit (lit @ [x]) ys else Inl Single_close)
      else parse_lit (lit @ [x]) xs)"
| "parse_field lit name [] = Inl Expected_close"
| "parse_field lit name (x # xs) =
     (if x = CHR ''}'' then
        (if name = [] then Inl Positional_field
         else (case parse_lit [] xs of
                 Inl e \<Rightarrow> Inl e
               | Inr segs \<Rightarrow> Inr (lit_seg lit @ Slot name # segs)))
      else if x = CHR ''{'' then Inl Unexpected_open
      else if field_char x then parse_field lit (name @ [x]) xs
      else Inl Unsupported_field)"

definition parse_fmt :: "string \<Rightarrow> fmt_error + seg list" where
  "parse_fmt s = parse_lit [] s"

text \<open>Printing a segment list back: braces of literal text are doubled.\<close>

fun escape_braces :: "string \<Rightarrow> string" where
  "escape_braces [] = []"
| "escape_braces (c # cs) =
     (if c = CHR ''{'' \<or> c = CHR ''}'' then c # c # escape_braces cs else c # escape_braces cs)"

fun print_seg :: "seg \<Rightarrow> string" where
  "print_seg (Lit s) = escape_braces s"
| "print_seg (Slot n) = CHR ''{'' # n @ ''}''"

definition print_fmt :: "seg list \<Rightarrow> string" where
  "print_fmt segs = concat (map print_seg segs)"

text \<open>
  The reader's output is in normal form: no empty literal, no two literals in a row,
  and every field name non-empty and made of field characters.
\<close>

fun wf_segs :: "seg list \<Rightarrow> bool" where
  "wf_segs [] = True"
| "wf_segs [Lit s] = (s \<noteq> [])"
| "wf_segs (Lit s # Lit t # segs) = False"
| "wf_segs (Lit s # Slot n # segs) = (s \<noteq> [] \<and> wf_segs (Slot n # segs))"
| "wf_segs (Slot n # segs) = (n \<noteq> [] \<and> list_all field_char n \<and> wf_segs segs)"

fun slot_names :: "seg list \<Rightarrow> string list" where
  "slot_names [] = []"
| "slot_names (Lit s # segs) = slot_names segs"
| "slot_names (Slot n # segs) = n # slot_names segs"

subsection \<open>Rendering: \<open>template.format(**kwargs)\<close>\<close>

fun render_segs :: "(string \<Rightarrow> string option) \<Rightarrow> seg list \<Rightarrow> fmt_error + string" where
  "render_segs env [] = Inr []"
| "render_segs env (Lit s # segs) = map_sum id (\<lambda>r. s @ r) (render_segs env segs)"
| "render_segs env (Slot n # segs) =
     (case env n of
        None \<Rightarrow> Inl (Key_error n)
      | Some v \<Rightarrow> map_sum id (\<lambda>r. v @ r) (render_segs env segs))"

definition format_str :: "string \<Rightarrow> (string \<Rightarrow> string option) \<Rightarrow> fmt_error + string" where
  "format_str tpl env = (case parse_fmt tpl of Inl e \<Rightarrow> Inl e | Inr segs \<Rightarrow> render_segs env segs)"

declare lit_seg_def [model_simps] field_char_def [model_simps] parse_lit.simps [model_simps]
  parse_field.simps [model_simps] parse_fmt_def [model_simps] escape_braces.simps [model_simps]
  print_seg.simps [model_simps] print_fmt_def [model_simps] slot_names.simps [model_simps]
  render_segs.simps [model_simps] format_str_def [model_simps]

subsection \<open>The prompt of \<open>main.py\<close>\<close>

text \<open>
  The template (lines 29 to 45) is a triple-quoted string: a newline, the fifteen lines
  with their twelve spaces of indentation, and the indentation before the closing quotes.
\<close>

definition template_lines :: "string list" where
  "template_lines =
    [''            You are an assistant tasked with answering questions about a codebase.'',
     [],
     ''            The context:'',
     ''            - Repo: {repo_name}'',
     ''            - GitHub URL: {github_url}'',
     ''            - Numbered Documents: {numbered_documents}'',
     ''            - File Count: {file_type_counts}'',
     ''            - File Names: {filenames}'',
     [],
     ''            Question: {question}'',
     [],
     ''            Answer clearly:'',
     ''            1. Analyze the codebase to understand relevant details.'',
     ''            2. Provide direct answers based on the code context.'',
     ''            3. If unsure, admit that and refrain from guessing.'']"

definition template :: string where
  "template = py_join ''\<newline>'' ([[]] @ template_lines @ [''            ''])"

record prompt_template =
  pt_template :: string
  pt_input_variables :: "string list"

definition prompt_input_variables :: "string list" where
  "prompt_input_variables =
     [''repo_name'', ''github_url'', ''numbered_documents'', ''question'', ''file_type_counts'',
      ''filenames'']"

definition prompt :: prompt_template where
  "prompt = \<lparr>pt_template = template, pt_input_variables = prompt_input_variables\<rparr>"

text \<open>
  \<open>LLMChain.run(**kwargs)\<close> checks that every input variable of the prompt has a value
  (\<open>ValueError: Missing some input keys\<close>), passes the prompt only the input variables,
  and formats the template with them.
\<close>

datatype chain_error = Missing_input_keys "string list" | Format_error fmt_error

definition format_prompt ::
  "prompt_template \<Rightarrow> (string \<Rightarrow> string option) \<Rightarrow> chain_error + string" where
  "format_prompt p kwargs =
     (let missing = filter (\<lambda>k. kwargs k = None) (pt_input_variables p) in
      if missing \<noteq> [] then Inl (Missing_input_keys missing)
      else map_sum Format_error id
             (format_str (pt_template p) (kwargs |` set (pt_input_variables p))))"

declare template_lines_def [model_simps] template_def [model_simps]
  prompt_input_variables_def [model_simps] prompt_def [model_simps] format_prompt_def [model_simps]

definition merge_lit :: "string \<Rightarrow> seg list \<Rightarrow> seg list" where
  "merge_lit lit segs = (case segs of Lit s # rest \<Rightarrow> Lit (lit @ s) # rest | _ \<Rightarrow> lit_seg lit @ segs)"

fun seg_text :: "(string \<Rightarrow> string option) \<Rightarrow> seg \<Rightarrow> string" where
  "seg_text env (Lit s) = s"
| "seg_text env (Slot n) = (case env n of Some v \<Rightarrow> v | None \<Rightarrow> [])"

subsection \<open>Reading, printing and rendering\<close>

lemma escape_braces_append [simp]: "escape_braces (xs @ ys) = escape_braces xs @ escape_braces ys"
  by (induction xs) auto

lemma parse_lit_escape: "parse_lit lit (escape_braces s @ rest) = parse_lit (lit @ s) rest"
  by (induction s arbitrary: lit) auto

lemma parse_field_name:
  "list_all field_char n \<Longrightarrow> parse_field lit name (n @ CHR ''}'' # rest) =
     (if name @ n = [] then Inl Positional_field
      else (case parse_lit [] rest of
              Inl e \<Rightarrow> Inl e
            | Inr segs \<Rightarrow> Inr (lit_seg lit @ Slot (name @ n) # segs)))"
  by (induction n arbitrary: name) (auto simp: field_char_def split: sum.splits)

lemma merge_lit_Nil [simp]: "merge_lit [] segs = segs"
  by (auto simp: merge_lit_def lit_seg_def split: list.splits seg.splits)

lemma print_fmt_Cons [simp]: "print_fmt (sg # segs) = print_seg sg @ print_fmt segs"
  by (simp add: print_fmt_def)

lemma print_fmt_Nil [simp]: "print_fmt [] = []"
  by (simp add: print_fmt_def)

lemma parse_lit_print_fmt:
  "wf_segs segs \<Longrightarrow> parse_lit lit (print_fmt segs) = Inr (merge_lit lit segs)"
proof (induction segs arbitrary: lit rule: wf_segs.induct)
  case 1
  then show ?case by (simp add: merge_lit_def)
next
  case (2 s)
  then show ?case
    using parse_lit_escape [of lit s "[]"] by (simp add: merge_lit_def lit_seg_def)
next
  case (3 s t segs)
  then show ?case by simp
next
  case (4 s n segs)
  then show ?case
    by (simp add: parse_lit_escape merge_lit_def lit_seg_def)
next
  case (5 n segs)
  then obtain y ys where n: "n = y # ys" and y: "field_char y" and fc: "list_all field_char n"
    by (cases n) auto
  then have "y \<noteq> CHR ''{''" by (auto simp: field_char_def)
  have "parse_field lit [] (n @ CHR ''}'' # print_fmt segs) = Inr (lit_seg lit @ Slot n # segs)"
  proof -
    have "wf_segs segs" using "5.prems" by simp
    then have "parse_lit [] (print_fmt segs) = Inr segs" using "5.IH" [of "[]"] by simp
    then show ?thesis
      using parse_field_name [OF fc, of lit "[]" "print_fmt segs"] n
      by (simp del: parse_field.simps)
  qed
  with n \<open>y \<noteq> CHR ''{''\<close> show ?case
    by (simp add: merge_lit_def del: parse_field.simps)
qed

text \<open>
  Printing a well-formed segment list and reading it back gives the same segments.
\<close>

theorem parse_print_fmt: "wf_segs segs \<Longrightarrow> parse_fmt (print_fmt segs) = Inr segs"
  using parse_lit_print_fmt [of segs "[]"] by (simp add: parse_fmt_def)

lemma lit_seg_wf: "wf_segs (Slot n # segs) \<Longrightarrow> wf_segs (lit_seg lit @ Slot n # segs)"
  by (simp add: lit_seg_def)

lemma parse_lit_print:
  "parse_lit lit xs = Inr segs \<Longrightarrow> print_fmt segs = escape_braces lit @ xs \<and> wf_segs segs"
and parse_field_print:
  "parse_field lit name ys = Inr segs \<Longrightarrow> list_all field_char name \<Longrightarrow>
     print_fmt segs = escape_braces lit @ CHR ''{'' # name @ ys \<and> wf_segs segs"
proof (induction lit xs and lit name ys arbitrary: segs and segs rule: parse_lit_parse_field.induct)
  case (1 lit)
  then show ?case by (auto simp: lit_seg_def)
next
  case (2 lit x xs)
  then show ?case
    by (auto split: if_splits list.splits)
next
  case (3 lit name)
  then show ?case by simp
next
  case (4 lit name x xs)
  then show ?case
    by (auto simp: lit_seg_def split: if_splits sum.splits)
qed

lemma slot_in_names: "Slot n \<in> set segs \<Longrightarrow> n \<in> set (slot_names segs)"
  by (induction segs rule: slot_names.induct) auto

lemma render_segs_ok:
  "set (slot_names segs) \<subseteq> dom env \<Longrightarrow> render_segs env segs = Inr (concat (map (seg_text env) segs))"
  by (induction env segs rule: render_segs.induct) auto

lemma render_segs_error:
  "render_segs env segs = Inl e \<Longrightarrow> \<exists>n. e = Key_error n \<and> n \<in> set (slot_names segs) \<and> env n = None"
  by (induction env segs rule: render_segs.induct) (auto split: option.splits)

lemma render_segs_cong:
  "(\<And>n. n \<in> set (slot_names segs) \<Longrightarrow> env n = env' n) \<Longrightarrow> render_segs env segs = render_segs env' segs"
  by (induction env segs rule: render_segs.induct) (auto split: option.splits)

lemma render_segs_slot:
  "render_segs env segs = Inr out \<Longrightarrow> n \<in> set (slot_names segs) \<Longrightarrow> env n = Some v \<Longrightarrow> sublist v out"
proof (induction env segs arbitrary: out rule: render_segs.induct)
  case (1 env)
  then show ?case by simp
next
  case (2 env s segs)
  then show ?case by (auto intro: sublist_append_leftI sublist_order.order_trans)
next
  case (3 env m segs)
  then show ?case
    by (auto split: option.splits intro: sublist_order.order_trans [OF _ sublist_append_leftI])
qed

lemma parse_template:
  "map_sum id slot_names (parse_fmt template) =
     Inr [''repo_name'', ''github_url'', ''numbered_documents'', ''file_type_counts'', ''filenames'',
          ''question'']"
  by (simp add: model_simps)

lemma parse_template_segs:
  obtains segs where "parse_fmt template = Inr segs"
    and "slot_names segs = [''repo_name'', ''github_url'', ''numbered_documents'', ''file_type_counts'',
          ''filenames'', ''question'']"
  using parse_template by (cases "parse_fmt template") auto

lemma format_prompt_cong:
  "(\<And>k. k \<in> set (pt_input_variables p) \<Longrightarrow> kw k = kw' k) \<Longrightarrow> format_prompt p kw = format_prompt p kw'"
proof -
  assume eq: "\<And>k. k \<in> set (pt_input_variables p) \<Longrightarrow> kw k = kw' k"
  then have f1: "filter (\<lambda>k. kw k = None) (pt_input_variables p) = filter (\<lambda>k. kw' k = None) (pt_input_variables p)"
    by (auto intro: filter_cong)
  have f2: "kw |` set (pt_input_variables p) = kw' |` set (pt_input_variables p)"
    using eq by (auto simp: restrict_map_def)
  show ?thesis unfolding format_prompt_def Let_def by (simp only: f1 f2)
qed

text \<open>
  C20. The prompt sent to the model does not depend on the conversation history: whatever
  value the keyword \<open>conversation_history\<close> has, the template of \<open>main.py\<close> has no
  field for it and \<open>LLMChain\<close> drops it.
\<close>

lemma prompt_ignores_history:
  "format_prompt prompt (kw(''conversation_history'' := h)) = format_prompt prompt kw"
  by (rule format_prompt_cong) (auto simp: prompt_def prompt_input_variables_def)

lemma format_prompt_prompt:
  assumes "\<forall>k \<in> set prompt_input_variables. kw k \<noteq> None"
  shows "\<exists>segs. parse_fmt template = Inr segs \<and>
    format_prompt prompt kw = Inr (concat (map (seg_text kw) segs))"
proof -
  obtain segs where ps: "parse_fmt template = Inr segs"
    and sn: "slot_names segs = [''repo_name'', ''github_url'', ''numbered_documents'', ''file_type_counts'',
          ''filenames'', ''question'']"
    by (rule parse_template_segs)
  let ?env = "kw |` set prompt_input_variables"
  have dom: "set (slot_names segs) \<subseteq> dom ?env"
    using assms sn by (auto simp: prompt_input_variables_def)
  have "map (seg_text ?env) segs = map (seg_text kw) segs"
  proof (rule map_cong [OF refl])
    fix x assume x: "x \<in> set segs"
    show "seg_text ?env x = seg_text kw x"
    proof (cases x)
      case (Lit s)
      then show ?thesis by simp
    next
      case (Slot n)
      with x have "n \<in> set (slot_names segs)" by (simp add: slot_in_names)
      with sn have "n \<in> set prompt_input_variables" by (auto simp: prompt_input_variables_def)
      with Slot show ?thesis by (simp add: restrict_map_def)
    qed
  qed
  note texts = this
  have "filter (\<lambda>k. kw k = None) prompt_input_variables = []"
    using assms by (simp add: filter_empty_conv)
  then have "format_prompt prompt kw = map_sum Format_error id (format_str template ?env)"
    by (simp add: format_prompt_def prompt_def)
  also have "\<dots> = map_sum Format_error id (render_segs ?env segs)"
    by (simp add: format_str_def ps)
  finally show ?thesis
    using ps render_segs_ok [OF dom] texts by simp
qed

lemma prompt_value_in_prompt:
  assumes fp: "format_prompt prompt kw = Inr p" and k: "k \<in> set prompt_input_variables"
    and v: "kw k = Some v"
  shows "sublist v p"
proof -
  obtain segs where ps: "parse_fmt template = Inr segs"
    and sn: "slot_names segs = [''repo_name'', ''github_url'', ''numbered_documents'', ''file_type_counts'',
          ''filenames'', ''question'']"
    by (rule parse_template_segs)
  let ?env = "kw |` set prompt_input_variables"
  have nm: "filter (\<lambda>k. kw k = None) prompt_input_variables = []"
  proof (rule ccontr)
    assume "filter (\<lambda>k. kw k = None) prompt_input_variables \<noteq> []"
    then have "format_prompt prompt kw =
        Inl (Missing_input_keys (filter (\<lambda>k. kw k = None) prompt_input_variables))"
      by (simp add: format_prompt_def prompt_def)
    with fp show False by simp
  qed
  then have eq: "format_prompt prompt kw = map_sum Format_error id (format_str template ?env)"
    by (simp add: format_prompt_def prompt_def)
  have "format_str template ?env = Inr p" using fp [unfolded eq] by simp
  then have r: "render_segs ?env segs = Inr p" by (simp add: format_str_def ps)
  have e: "?env k = Some v" using k v by simp
  have "k \<in> set (slot_names segs)" using k unfolding sn prompt_input_variables_def by auto
  from render_segs_slot [OF r this e] show ?thesis .
qed

text \<open>
  C21. Whenever the prompt renders, the (normalised) question passed as the keyword
  \<open>question\<close> occurs in it as a contiguous substring.
\<close>

lemma prompt_contains_question:
  "format_prompt prompt kw = Inr p \<Longrightarrow> kw ''question'' = Some q \<Longrightarrow> sublist q p"
  by (erule prompt_value_in_prompt [of _ _ "''question''"]) (simp_all add: prompt_input_variables_def)

theorem prompt_contains_question_witness:
  "\<exists>p. format_prompt prompt ((\<lambda>k. Some ''x'')(''question'' := Some ''Why?'')) = Inr p
     \<and> ((\<lambda>k. Some ''x'')(''question'' := Some ''Why?'')) ''question'' = Some ''Why?''
     \<and> sublist ''Why?'' p"
proof -
  have "\<forall>k \<in> set prompt_input_variables. ((\<lambda>k. Some ''x'')(''question'' := Some ''Why?'')) k \<noteq> None"
    by simp
  then obtain p where fp: "format_prompt prompt ((\<lambda>k. Some ''x'')(''question'' := Some ''Why?'')) = Inr p"
    using format_prompt_prompt by blast
  have kw: "((\<lambda>k. Some ''x'')(''question'' := Some ''Why?'')) ''question'' = Some ''Why?''" by simp
  show ?thesis using fp kw prompt_contains_question [OF fp kw] by blast
qed

lemma escape_braces_length: "length s \<le> length (escape_braces s)"
  by (induction s) auto

lemma seg_text_length_bounds:
  "sum_list (map (\<lambda>n. length (seg_text env (Slot n))) (slot_names segs)) \<le> length (concat (map (seg_text env) segs))
   \<and> length (concat (map (seg_text env) segs))
       \<le> length (print_fmt segs) + sum_list (map (\<lambda>n. length (seg_text env (Slot n))) (slot_names segs))"
proof (induction segs rule: slot_names.induct)
  case (2 s segs)
  then show ?case using escape_braces_length [of s] by simp
qed simp_all

lemma format_prompt_keys:
  "format_prompt prompt kw = Inr p \<Longrightarrow> \<forall>k \<in> set prompt_input_variables. kw k \<noteq> None"
  by (auto simp: format_prompt_def prompt_def Let_def filter_empty_conv split: if_splits)

text \<open>
  Whatever string the reader accepts is printed back to itself, and the segments it
  produces are well formed.
\<close>

theorem print_parse_fmt: "parse_fmt s = Inr segs \<Longrightarrow> print_fmt segs = s \<and> wf_segs segs"
  using parse_lit_print [of "[]" s segs] by (simp add: parse_fmt_def)

text \<open>
  C28. The rendered prompt is bounded by its inputs: it is at least as long as the six
  values together, and at most as long as the template plus the six values (each field
  is replaced by its value; the literal text is kept).  Nothing else bounds its size.
\<close>

theorem prompt_length_bounds:
  assumes fp: "format_prompt prompt kw = Inr p"
  shows "sum_list (map (\<lambda>k. length (the (kw k))) prompt_input_variables) \<le> length p
    \<and> length p \<le> length template + sum_list (map (\<lambda>k. length (the (kw k))) prompt_input_variables)"
proof -
  have keys: "\<forall>k \<in> set prompt_input_variables. kw k \<noteq> None" using format_prompt_keys [OF fp] .
  obtain segs where ps: "parse_fmt template = Inr segs"
    and p: "format_prompt prompt kw = Inr (concat (map (seg_text kw) segs))"
    using format_prompt_prompt [OF keys] by blast
  obtain segs' where ps': "parse_fmt template = Inr segs'"
    and sn: "slot_names segs' = [''repo_name'', ''github_url'', ''numbered_documents'', ''file_type_counts'',
          ''filenames'', ''question'']"
    by (rule parse_template_segs)
  have sn': "slot_names segs = slot_names segs'" using ps ps' by simp
  have out: "p = concat (map (seg_text kw) segs)" using fp p by simp
  have pr: "print_fmt segs = template" using print_parse_fmt [OF ps] by simp
  have "\<forall>n \<in> set (slot_names segs). length (seg_text kw (Slot n)) = length (the (kw n))"
    using keys unfolding sn' sn prompt_input_variables_def by (auto split: option.split)
  then have "sum_list (map (\<lambda>n. length (seg_text kw (Slot n))) (slot_names segs))
      = sum_list (map (\<lambda>k. length (the (kw k))) (slot_names segs))"
    by (metis (no_types, lifting) map_cong)
  also have "\<dots> = sum_list (map (\<lambda>k. length (the (kw k))) prompt_input_variables)"
    unfolding sn' sn prompt_input_variables_def by simp
  finally show ?thesis
    using seg_text_length_bounds [of kw segs] out pr by simp
qed

theorem prompt_length_bounds_witness:
  "\<exists>p. format_prompt prompt (\<lambda>k. Some ''x'') = Inr p \<and> 6 \<le> length p \<and> length p \<le> length template + 6"
proof -
  have "\<exists>segs. parse_fmt template = Inr segs \<and>
      format_prompt prompt (\<lambda>k. Some ''x'') = Inr (concat (map (seg_text (\<lambda>k. Some ''x'')) segs))"
    by (rule format_prompt_prompt [where kw = "\<lambda>k. Some ''x''"]) simp
  then obtain p where fp: "format_prompt prompt (\<lambda>k. Some ''x'') = Inr p" by blast
  show ?thesis using fp prompt_length_bounds [OF fp] by (simp add: prompt_input_variables_def)
qed

end
