(* ===== verification/Indexer.thy ===== *)
theory Indexer
  imports Py_String
begin

text \<open>
  The File Indexer, \<open>file_processing.load_and_index_files\<close>, called at line 21 of
  \<open>src/main.py\<close>.  Its source is not part of \<open>src/\<close>; it is modelled from the
  specification (section 4.2): walk the files of the clone in order, keep a file when its
  extension is on the allow-list and its size is within the ceiling, skip it silently when
  its text cannot be decoded, and otherwise record a document, count its extension and
  record its name.  The index is built from the documents, and is \<open>None\<close> when there
  are none.  The similarity index itself is an opaque library structure: the model keeps
  the documents it was built from (\<open>build(documents) \<rightarrow> Index\<close>).
\<close>

record file_entry =
  fe_path :: path
  fe_size :: nat
  fe_text :: "string option"  \<comment> \<open>\<open>None\<close>: the file does not decode as text\<close>

record index_config =
  allowed_exts :: "ext list"
  max_size :: nat

record document =
  doc_source :: path
  doc_content :: string

datatype index = Index "document list"

text \<open>
  The extension of a path: the text after the last dot of its last component, or the
  empty string when that component has no dot.
\<close>

definition basename :: "path \<Rightarrow> string" where
  "basename p = last (py_split CHR ''/'' p)"

definition ext_of :: "path \<Rightarrow> ext" where
  "ext_of p = (let b = basename p in if CHR ''.'' \<in> set b then last (py_split CHR ''.'' b) else [])"

definition accepted :: "index_config \<Rightarrow> file_entry \<Rightarrow> bool" where
  "accepted cfg f \<longleftrightarrow> ext_of (fe_path f) \<in> set (allowed_exts cfg) \<and> fe_size f \<le> max_size cfg"

text \<open>\<open>counts[ext] = counts.get(ext, 0) + 1\<close> on an insertion-ordered dictionary.\<close>

fun bump_count :: "ext \<Rightarrow> (ext \<times> nat) list \<Rightarrow> (ext \<times> nat) list" where
  "bump_count e [] = [(e, 1)]"
| "bump_count e ((k, n) # kvs) = (if k = e then (k, Suc n) # kvs else (k, n) # bump_count e kvs)"

record walk_state =
  ws_docs :: "document list"
  ws_counts :: "(ext \<times> nat) list"
  ws_names :: "path list"

definition walk_init :: walk_state where
  "walk_init = \<lparr>ws_docs = [], ws_counts = [], ws_names = []\<rparr>"

definition index_file :: "index_config \<Rightarrow> walk_state \<Rightarrow> file_entry \<Rightarrow> walk_state" where
  "index_file cfg s f =
     (if accepted cfg f then
        (case fe_text f of
          None \<Rightarrow> s
        | Some t \<Rightarrow>
            s\<lparr>ws_docs := ws_docs s @ [\<lparr>doc_source = fe_path f, doc_content = t\<rparr>],
              ws_counts := bump_count (ext_of (fe_path f)) (ws_counts s),
              ws_names := ws_names s @ [fe_path f]\<rparr>)
      else s)"

definition load_and_index_files ::
  "index_config \<Rightarrow> file_entry list \<Rightarrow>
     index option \<times> document list \<times> (ext \<times> nat) list \<times> path list" where
  "load_and_index_files cfg files =
     (let s = foldl (index_file cfg) walk_init files in
      (if ws_docs s = [] then None else Some (Index (ws_docs s)), ws_docs s, ws_counts s, ws_names s))"

text \<open>The reference: the documents are the accepted, decodable files, in walk order.\<close>

definition indexable :: "index_config \<Rightarrow> file_entry \<Rightarrow> bool" where
  "indexable cfg f \<longleftrightarrow> accepted cfg f \<and> fe_text f \<noteq> None"

definition to_document :: "file_entry \<Rightarrow> document" where
  "to_document f = \<lparr>doc_source = fe_path f, doc_content = the (fe_text f)\<rparr>"

declare basename_def [model_simps] ext_of_def [model_simps] accepted_def [model_simps]
  bump_count.simps [model_simps] walk_init_def [model_simps] index_file_def [model_simps]
  load_and_index_files_def [model_simps]

subsection \<open>The counting dictionary\<close>

lemma sum_bump_count: "sum_list (map snd (bump_count e c)) = Suc (sum_list (map snd c))"
  by (induction e c rule: bump_count.induct) auto

lemma map_of_bump_count:
  "map_of (bump_count e c) k =
     (if k = e then Some (case map_of c e of None \<Rightarrow> 1 | Some n \<Rightarrow> Suc n) else map_of c k)"
  by (induction e c rule: bump_count.induct) auto

lemma keys_bump_count: "map fst (bump_count e c) = (if e \<in> set (map fst c) then map fst c else map fst c @ [e])"
  by (induction e c rule: bump_count.induct) auto

lemma distinct_bump_count: "distinct (map fst c) \<Longrightarrow> distinct (map fst (bump_count e c))"
  by (simp add: keys_bump_count)

subsection \<open>The walk\<close>

lemma walk_foldl:
  "foldl (index_file cfg) walk_init files =
     \<lparr>ws_docs = map to_document (filter (indexable cfg) files),
      ws_counts = foldl (\<lambda>c f. bump_count (ext_of (fe_path f)) c) [] (filter (indexable cfg) files),
      ws_names = map fe_path (filter (indexable cfg) files)\<rparr>"
proof (induction files rule: rev_induct)
  case Nil
  then show ?case by (simp add: walk_init_def)
next
  case (snoc f files)
  then show ?case
    by (auto simp: index_file_def indexable_def to_document_def split: option.splits)
qed

lemma counts_foldl_sum:
  "sum_list (map snd (foldl (\<lambda>c f. bump_count (g f) c) c0 fs)) = sum_list (map snd c0) + length fs"
  by (induction fs arbitrary: c0) (auto simp: sum_bump_count)

lemma counts_foldl_distinct:
  "distinct (map fst c0) \<Longrightarrow> distinct (map fst (foldl (\<lambda>c f. bump_count (g f) c) c0 fs))"
  by (induction fs arbitrary: c0) (auto simp: distinct_bump_count)

lemma counts_foldl_lookup:
  "map_of c0 k \<noteq> Some 0 \<Longrightarrow> map_of (foldl (\<lambda>c f. bump_count (g f) c) c0 fs) k =
     (let n = (case map_of c0 k of None \<Rightarrow> 0 | Some m \<Rightarrow> m) + count_list (map g fs) k in
      if n = 0 then None else Some n)"
proof (induction fs arbitrary: c0)
  case Nil
  then show ?case by (auto split: option.splits)
next
  case (Cons f fs)
  then show ?case
    by (auto simp: map_of_bump_count Let_def split: option.splits)
qed

lemma load_and_index_files_eq:
  "load_and_index_files cfg files =
     (let docs = map to_document (filter (indexable cfg) files) in
      (if docs = [] then None else Some (Index docs), docs,
       foldl (\<lambda>c f. bump_count (ext_of (fe_path f)) c) [] (filter (indexable cfg) files),
       map doc_source docs))"
  by (simp add: load_and_index_files_def walk_foldl Let_def o_def to_document_def)

lemma ext_of_to_document [simp]: "ext_of (doc_source (to_document f)) = ext_of (fe_path f)"
  by (simp add: to_document_def)

subsection \<open>Properties of the indexer\<close>

text \<open>
  The documents are the accepted, decodable files in walk order, the recorded file
  names are their paths, and the index is built from them exactly when there is one.
\<close>

theorem index_documents:
  assumes "load_and_index_files cfg files = (idx, docs, counts, names)"
  shows "docs = map to_document (filter (indexable cfg) files) \<and> names = map doc_source docs
    \<and> idx = (if docs = [] then None else Some (Index docs))"
  using assms by (auto simp: load_and_index_files_eq Let_def)

text \<open>
  Every accepted document is counted exactly once: the per-extension counts add up to
  the number of documents, and no extension appears twice in the dictionary.
\<close>

theorem index_counts_sum:
  assumes "load_and_index_files cfg files = (idx, docs, counts, names)"
  shows "sum_list (map snd counts) = length docs \<and> distinct (map fst counts)"
  using assms
  by (auto simp: load_and_index_files_eq Let_def counts_foldl_sum counts_foldl_distinct)

text \<open>
  The count recorded for an extension is the number of documents with that extension,
  and an extension with no document has no entry.
\<close>

theorem index_counts_lookup:
  assumes "load_and_index_files cfg files = (idx, docs, counts, names)"
  shows "map_of counts e =
    (let n = count_list (map (\<lambda>d. ext_of (doc_source d)) docs) e in if n = 0 then None else Some n)"
proof -
  have "counts = foldl (\<lambda>c f. bump_count (ext_of (fe_path f)) c) [] (filter (indexable cfg) files)"
    and "docs = map to_document (filter (indexable cfg) files)"
    using assms by (auto simp: load_and_index_files_eq Let_def)
  then show ?thesis
    using counts_foldl_lookup [of "[]" e "\<lambda>f. ext_of (fe_path f)" "filter (indexable cfg) files"]
    by (simp add: o_def)
qed

text \<open>
  The indexer returns no index exactly when no file of the walk is both accepted by
  the filters and decodable; in particular a clone whose files are all outside the
  allow-list or over the size ceiling gives no index.
\<close>

theorem index_none_iff:
  "fst (load_and_index_files cfg files) = None \<longleftrightarrow> (\<forall>f \<in> set files. \<not> indexable cfg f)"
  by (simp add: load_and_index_files_eq Let_def filter_empty_conv)

text \<open>
  The size ceiling is on the bytes of a file (\<open>fe_size\<close>), not on its text.  Since
  decoding gives at most one character per byte, a file whose text is no longer than
  its size yields a document no longer than the ceiling.
\<close>

theorem index_content_bounded:
  assumes "load_and_index_files cfg files = (idx, docs, counts, names)"
    and "\<forall>f \<in> set files. \<forall>t. fe_text f = Some t \<longrightarrow> length t \<le> fe_size f"
  shows "\<forall>d \<in> set docs. length (doc_content d) \<le> max_size cfg"
  using assms
  by (fastforce simp: load_and_index_files_eq Let_def indexable_def accepted_def to_document_def)

end
