(* ===== verification/Questions.thy ===== *)
theory Questions
  imports Template Indexer
begin

text \<open>
  The Question Answerer, \<open>questions.ask_question\<close> with its \<open>QuestionContext\<close>, called
  at lines 61 and 69 of \<open>src/main.py\<close>.  Its source is not part of \<open>src/\<close>; it is
  modelled from the specification (sections 4.2 and 4.3 and the capability interface of
  section 9): the index answers a query with the \<open>K\<close> documents most similar to the
  question (no threshold, no re-ranking), the documents are numbered into one block, the
  prompt is rendered from the chain's template with the context's values, and the rendered
  prompt goes to the hosted model, whose completion is the answer.  The similarity measure
  of the embedding library is a parameter (\<open>rt_similarity\<close>); ties keep the order in
  which the documents were indexed.
\<close>

record llm =
  llm_model :: string
  llm_temperature :: real
  llm_api_key :: string

record llm_chain =
  lc_prompt :: prompt_template
  lc_llm :: llm

text \<open>The nine fields in the order of the constructor call at line 61 of \<open>main.py\<close>.\<close>

record question_context =
  qc_index :: index
  qc_documents :: "document list"
  qc_llm_chain :: llm_chain
  qc_model_name :: string
  qc_repo_name :: string
  qc_github_url :: url
  qc_conversation_history :: string
  qc_file_type_counts :: "(ext \<times> nat) list"
  qc_filenames :: "path list"

record retrieval =
  rt_k :: nat
  rt_similarity :: "string \<Rightarrow> document \<Rightarrow> int"

text \<open>\<open>query(Index, text, k)\<close>: the \<open>k\<close> most similar documents, most similar first.\<close>

definition top_k :: "(document \<Rightarrow> int) \<Rightarrow> nat \<Rightarrow> document list \<Rightarrow> document list" where
  "top_k sim k docs = take k (sort_key (\<lambda>d. - sim d) docs)"

fun search_documents :: "retrieval \<Rightarrow> string \<Rightarrow> index \<Rightarrow> document list" where
  "search_documents rt q (Index docs) = top_k (rt_similarity rt q) (rt_k rt) docs"

text \<open>One labelled entry per document, numbered from 1, one per line.\<close>

definition doc_entry :: "nat \<Rightarrow> document \<Rightarrow> string" where
  "doc_entry i d = nat_to_str i @ ''. '' @ doc_source d @ '': '' @ doc_content d"

definition format_documents :: "document list \<Rightarrow> string" where
  "format_documents docs = py_join ''\<newline>'' (map2 doc_entry [1..<Suc (length docs)] docs)"

text \<open>The keyword arguments that \<open>ask_question\<close> passes to \<open>llm_chain.run\<close>.\<close>

definition question_kwargs ::
  "retrieval \<Rightarrow> string \<Rightarrow> question_context \<Rightarrow> string \<Rightarrow> string option" where
  "question_kwargs rt q ctx =
     [''model'' \<mapsto> qc_model_name ctx,
      ''question'' \<mapsto> q,
      ''repo_name'' \<mapsto> qc_repo_name ctx,
      ''github_url'' \<mapsto> qc_github_url ctx,
      ''conversation_history'' \<mapsto> qc_conversation_history ctx,
      ''numbered_documents'' \<mapsto> format_documents (search_documents rt q (qc_index ctx)),
      ''file_type_counts'' \<mapsto> py_repr_counts (qc_file_type_counts ctx),
      ''filenames'' \<mapsto> py_repr_list (qc_filenames ctx)]"

definition question_prompt :: "retrieval \<Rightarrow> string \<Rightarrow> question_context \<Rightarrow> chain_error + string" where
  "question_prompt rt q ctx = format_prompt (lc_prompt (qc_llm_chain ctx)) (question_kwargs rt q ctx)"

text \<open>How a failure of the chain surfaces as a Python exception.\<close>

fun fmt_error_exc :: "fmt_error \<Rightarrow> exc" where
  "fmt_error_exc Single_close = ValueError ''Single '}' encountered in format string''"
| "fmt_error_exc Single_open = ValueError ''Single '{' encountered in format string''"
| "fmt_error_exc Expected_close = ValueError ''expected '}' before end of string''"
| "fmt_error_exc Unexpected_open = ValueError ''unexpected '{' in field name''"
| "fmt_error_exc Unsupported_field = ValueError ''unsupported field''"
| "fmt_error_exc Positional_field = ValueError ''Replacement index 0 out of range for positional args tuple''"
| "fmt_error_exc (Key_error k) = KeyError k"

fun chain_exc :: "chain_error \<Rightarrow> exc" where
  "chain_exc (Missing_input_keys ks) =
     ValueError (''Missing some input keys: {'' @ py_join '', '' (map py_repr_str ks) @ ''}'')"
| "chain_exc (Format_error e) = fmt_error_exc e"

text \<open>
  \<open>ask_question\<close>: render the prompt, then call the model with the chain's LLM; the
  model call (\<open>call_llm\<close>) returns the completion or raises.
\<close>

definition ask_question ::
  "retrieval \<Rightarrow> (llm \<Rightarrow> string \<Rightarrow> exc + string) \<Rightarrow> string \<Rightarrow> question_context \<Rightarrow> exc + string" where
  "ask_question rt call_llm q ctx =
     (case question_prompt rt q ctx of
        Inl e \<Rightarrow> Inl (chain_exc e)
      | Inr p \<Rightarrow> call_llm (lc_llm (qc_llm_chain ctx)) p)"

declare top_k_def [model_simps] search_documents.simps [model_simps] doc_entry_def [model_simps]
  format_documents_def [model_simps] question_kwargs_def [model_simps]
  question_prompt_def [model_simps] fmt_error_exc.simps [model_simps] chain_exc.simps [model_simps]
  ask_question_def [model_simps]

subsection \<open>Retrieval\<close>

lemma length_top_k: "length (top_k sim k docs) = min k (length docs)"
  by (simp add: top_k_def length_sort)

lemma mset_top_k: "mset (top_k sim k docs) \<subseteq># mset docs"
proof -
  let ?s = "sort_key (\<lambda>d. - sim d) docs"
  have "mset ?s = mset (take k ?s) + mset (drop k ?s)"
    by (metis append_take_drop_id mset_append)
  then show ?thesis by (simp add: top_k_def mset_subset_eq_exists_conv)
qed

lemma sorted_top_k: "sorted (map (\<lambda>d. - sim d) (top_k sim k docs))"
proof -
  let ?s = "sort_key (\<lambda>d. - sim d) docs"
  have "sorted (map (\<lambda>d. - sim d) (take k ?s) @ map (\<lambda>d. - sim d) (drop k ?s))"
    using sorted_sort_key [of "\<lambda>d. - sim d" docs]
    by (simp flip: map_append)
  then show ?thesis by (simp add: top_k_def sorted_append)
qed

text \<open>A selected document is at least as similar as every document left out.\<close>

lemma top_k_best:
  assumes "d \<in> set (top_k sim k docs)" and "d' \<in># mset docs - mset (top_k sim k docs)"
  shows "sim d' \<le> sim d"
proof -
  let ?s = "sort_key (\<lambda>d. - sim d) docs"
  have "mset docs = mset (take k ?s) + mset (drop k ?s)"
    by (metis append_take_drop_id mset_append mset_sort)
  then have "mset docs - mset (take k ?s) = mset (drop k ?s)" by simp
  with assms(2) have d': "d' \<in> set (drop k ?s)" by (simp add: top_k_def)
  have d: "d \<in> set (take k ?s)" using assms(1) by (simp add: top_k_def)
  have "sorted (map (\<lambda>d. - sim d) (take k ?s) @ map (\<lambda>d. - sim d) (drop k ?s))"
    using sorted_sort_key [of "\<lambda>d. - sim d" docs] by (simp flip: map_append)
  then have "- sim d \<le> - sim d'" using d d' unfolding sorted_append by auto
  then show ?thesis by simp
qed

subsection \<open>The numbered documents and the prompt\<close>

lemma format_documents_entry:
  assumes "i < length docs"
  shows "sublist (doc_entry (Suc i) (docs ! i)) (format_documents docs)"
proof -
  have "map2 doc_entry [1..<Suc (length docs)] docs ! i = doc_entry (Suc i) (docs ! i)"
    using assms by (simp add: nth_upt del: upt_Suc)
  moreover have "i < length (map2 doc_entry [1..<Suc (length docs)] docs)" using assms by simp
  ultimately have "doc_entry (Suc i) (docs ! i) \<in> set (map2 doc_entry [1..<Suc (length docs)] docs)"
    by (metis nth_mem)
  then show ?thesis
    unfolding format_documents_def by (rule sublist_py_join)
qed

lemma question_prompt_ok:
  "lc_prompt (qc_llm_chain ctx) = prompt \<Longrightarrow> \<exists>p. question_prompt rt q ctx = Inr p"
  using format_prompt_prompt [of "question_kwargs rt q ctx"]
  by (auto simp: question_prompt_def question_kwargs_def prompt_input_variables_def)

lemma question_prompt_parts:
  assumes "lc_prompt (qc_llm_chain ctx) = prompt" and "question_prompt rt q ctx = Inr p"
  shows "sublist q p \<and> sublist (format_documents (search_documents rt q (qc_index ctx))) p"
proof -
  have fp: "format_prompt prompt (question_kwargs rt q ctx) = Inr p"
    using assms unfolding question_prompt_def by simp
  have kq: "question_kwargs rt q ctx ''question'' = Some q"
    and kd: "question_kwargs rt q ctx ''numbered_documents'' =
               Some (format_documents (search_documents rt q (qc_index ctx)))"
    unfolding question_kwargs_def by simp_all
  have "''question'' \<in> set prompt_input_variables"
    and "''numbered_documents'' \<in> set prompt_input_variables"
    unfolding prompt_input_variables_def by simp_all
  then show ?thesis
    using prompt_value_in_prompt [OF fp _ kq] prompt_value_in_prompt [OF fp _ kd] by blast
qed

end
