(* ===== verification/Loop.thy ===== *)
theory Loop
  imports Questions "HOL-Library.While_Combinator"
begin

text \<open>
  The question loop of \<open>src/main.py\<close> (lines 62 to 74) and the world it runs in: the
  records of the configuration and of the world, the observable events, the loop state
  with its one pass (\<open>iteration\<close>) and the loop itself (\<open>qa_loop\<close>), the passes as
  a step relation (\<open>loop_reach\<close>), the observations on traces, and what a stretch of
  passes establishes (\<open>pass_ok\<close>).  The exit test of line 65 and its sixteen
  spellings are here too, and so is the key read at lines 11 and 12
  (\<open>openai_api_key\<close>, after \<open>load_dotenv\<close>).
\<close>

subsection \<open>The world of a run and its observable events\<close>

text \<open>
  The module \<open>config\<close> (the colour codes and \<open>model_name\<close>) is not part of \<open>src/\<close>; its
  values are parameters of the run.
\<close>

record app_config =
  cfg_white :: string
  cfg_green :: string
  cfg_reset :: string
  cfg_model_name :: string

text \<open>
  \<open>w_clone url\<close> is \<open>Some files\<close> when \<open>clone_github_repo\<close> succeeds, with the files of
  the clone; \<open>w_environ\<close> is the process environment when the program starts and
  \<open>w_dotenv\<close> the bindings of the \<open>.env\<close> file that \<open>load_dotenv()\<close> finds, in file
  order (a name written without \<open>=\<close> is bound to \<open>None\<close>); \<open>w_llm\<close> is the hosted
  model: the completion of a prompt, or the exception the call raises.
\<close>

record world =
  w_stdin :: "string list"
  w_environ :: "string \<Rightarrow> string option"
  w_dotenv :: "(string \<times> string option) list"
  w_clone :: "url \<Rightarrow> file_entry list option"
  w_index_cfg :: index_config
  w_retrieval :: retrieval
  w_llm :: "llm \<Rightarrow> string \<Rightarrow> exc + string"

text \<open>
  Lines 11 and 12.  \<open>load_dotenv()\<close> (python-dotenv, \<open>override=False\<close>) reads the file
  into a dictionary, where a later binding of a name replaces an earlier one, and then
  sets each name that is not already in the environment and whose value is not
  \<open>None\<close>; \<open>os.getenv\<close> reads the result.  The process environment therefore wins
  over the file (\<open>++\<close> gives precedence to its right operand).
\<close>

definition dotenv_values :: "(string \<times> string option) list \<Rightarrow> string \<Rightarrow> string option" where
  "dotenv_values kvs k = (case map_of (rev kvs) k of Some (Some v) \<Rightarrow> Some v | _ \<Rightarrow> None)"

definition load_dotenv :: "(string \<Rightarrow> string option) \<Rightarrow> (string \<times> string option) list \<Rightarrow> string \<Rightarrow> string option" where
  "load_dotenv env kvs = dotenv_values kvs ++ env"

definition openai_api_key :: "world \<Rightarrow> string option" where
  "openai_api_key w = load_dotenv (w_environ w) (w_dotenv w) ''OPENAI_API_KEY''"

datatype event =
    Prompt string            \<comment> \<open>the prompt text that \<open>input()\<close> writes\<close>
  | Input string             \<comment> \<open>a line read from standard input\<close>
  | Print string             \<comment> \<open>\<open>print(s)\<close>: the text, then a newline\<close>
  | TmpCreate                \<comment> \<open>entering \<open>tempfile.TemporaryDirectory()\<close>\<close>
  | TmpRemove                \<comment> \<open>leaving it: the directory is deleted\<close>
  | CloneRepo url            \<comment> \<open>\<open>clone_github_repo(github_url, local_path)\<close>\<close>
  | IndexRepo                \<comment> \<open>\<open>load_and_index_files(local_path)\<close>\<close>
  | Ask string string        \<comment> \<open>\<open>ask_question\<close> with this question and context history\<close>
  | LlmRequest string string \<comment> \<open>a request to the hosted model: model identifier, prompt\<close>
  | Reply string string      \<comment> \<open>\<open>ask_question\<close> returned this answer to this question\<close>

text \<open>
  How the loop was left: the \<open>break\<close> of line 66, or the \<open>break\<close> of line 74 after
  an exception, raised either by \<open>input()\<close> or by the answerer.
\<close>

datatype stop_reason = Exit_command | Input_error exc | Ask_error exc

datatype loop_status = Running | Stopped stop_reason

record loop_state =
  ls_input :: "string list"
  ls_history :: string
  ls_trace :: "event list"
  ls_status :: loop_status

subsection \<open>The question loop (lines 62 to 74)\<close>

definition loop_prompt :: "app_config \<Rightarrow> string" where
  "loop_prompt cfg =
     ''\<newline>'' @ cfg_white cfg @ ''Ask a question about the repository (type 'exit()' to quit): ''
     @ cfg_reset cfg"

text \<open>Line 65: the exit test lower-cases the raw line before comparing.\<close>

definition is_exit_command :: "string \<Rightarrow> bool" where
  "is_exit_command line \<longleftrightarrow> py_lower line = ''exit()''"

definition history_entry :: "string \<Rightarrow> string \<Rightarrow> string" where
  "history_entry q a = ''Question: '' @ q @ ''\<newline>Answer: '' @ a @ ''\<newline>''"

definition error_line :: "exc \<Rightarrow> string" where
  "error_line e = ''An error occurred: '' @ exc_str e"

text \<open>The events of the call \<open>ask_question(user_question, question_context)\<close>.\<close>

definition ask_events :: "world \<Rightarrow> question_context \<Rightarrow> string \<Rightarrow> event list" where
  "ask_events w ctx q =
     Ask q (qc_conversation_history ctx) #
     (case question_prompt (w_retrieval w) q ctx of
        Inl e \<Rightarrow> []
      | Inr p \<Rightarrow> [LlmRequest (llm_model (lc_llm (qc_llm_chain ctx))) p])"

text \<open>
  One pass of the loop body.  The \<open>try\<close> covers the \<open>input()\<close> call, so the end of the
  input (\<open>EOFError\<close>) is caught like any other exception: the message is printed and the
  loop is left.  The history is appended to the local variable \<open>conversation_history\<close>
  only: the context object keeps the empty string it was built with at line 61.
\<close>

definition iteration :: "app_config \<Rightarrow> world \<Rightarrow> question_context \<Rightarrow> loop_state \<Rightarrow> loop_state" where
  "iteration cfg w ctx s =
     (case ls_input s of
        [] \<Rightarrow>
          s\<lparr>ls_trace := ls_trace s @ [Prompt (loop_prompt cfg), Print (error_line EOFError)],
            ls_status := Stopped (Input_error EOFError)\<rparr>
      | line # rest \<Rightarrow>
          (let t = ls_trace s @ [Prompt (loop_prompt cfg), Input line] in
           if is_exit_command line then
             s\<lparr>ls_input := rest, ls_trace := t, ls_status := Stopped Exit_command\<rparr>
           else
             (let q = format_user_question line;
                  t' = t @ Print ''Thinking...'' # ask_events w ctx q in
              case ask_question (w_retrieval w) (w_llm w) q ctx of
                Inl e \<Rightarrow>
                  s\<lparr>ls_input := rest, ls_trace := t' @ [Print (error_line e)],
                    ls_status := Stopped (Ask_error e)\<rparr>
              | Inr a \<Rightarrow>
                  s\<lparr>ls_input := rest,
                    ls_trace := t' @ [Reply q a,
                      Print (cfg_green cfg @ ''\<newline>ANSWER\<newline>'' @ a @ cfg_reset cfg @ ''\<newline>'')],
                    ls_history := ls_history s @ history_entry q a\<rparr>)))"

definition loop_measure :: "loop_state \<Rightarrow> nat" where
  "loop_measure s = length (ls_input s) + (if ls_status s = Running then 1 else 0)"

function qa_loop :: "app_config \<Rightarrow> world \<Rightarrow> question_context \<Rightarrow> loop_state \<Rightarrow> loop_state" where
  "qa_loop cfg w ctx s =
     (if ls_status s = Running then qa_loop cfg w ctx (iteration cfg w ctx s) else s)"
  by pat_completeness auto
termination
proof (relation "measure (\<lambda>(cfg, w, ctx, s). loop_measure s)")
  fix cfg w ctx and s :: loop_state
  assume "ls_status s = Running"
  then show "((cfg, w, ctx, iteration cfg w ctx s), (cfg, w, ctx, s))
      \<in> measure (\<lambda>(cfg, w, ctx, s). loop_measure s)"
    by (auto simp: iteration_def loop_measure_def Let_def split: list.splits sum.splits)
qed simp

declare qa_loop.simps [simp del]

subsection \<open>Runs of the loop as a step relation\<close>

text \<open>The states the loop passes through from a start state: one step per pass.\<close>

inductive loop_reach :: "app_config \<Rightarrow> world \<Rightarrow> question_context \<Rightarrow> loop_state \<Rightarrow> loop_state \<Rightarrow> bool"
  for cfg w ctx s0 where
  start: "loop_reach cfg w ctx s0 s0"
| step: "loop_reach cfg w ctx s0 s \<Longrightarrow> ls_status s = Running \<Longrightarrow>
           loop_reach cfg w ctx s0 (iteration cfg w ctx s)"

text \<open>Observations on traces.\<close>

fun replies :: "event list \<Rightarrow> (string \<times> string) list" where
  "replies [] = []"
| "replies (Reply q a # es) = (q, a) # replies es"
| "replies (e # es) = replies es"

fun asks :: "event list \<Rightarrow> (string \<times> string) list" where
  "asks [] = []"
| "asks (Ask q h # es) = (q, h) # asks es"
| "asks (e # es) = asks es"

fun requests :: "event list \<Rightarrow> (string \<times> string) list" where
  "requests [] = []"
| "requests (LlmRequest m p # es) = (m, p) # requests es"
| "requests (e # es) = requests es"

definition loop_event :: "event \<Rightarrow> bool" where
  "loop_event e \<longleftrightarrow> e \<notin> {TmpCreate, TmpRemove, IndexRepo} \<and> (\<forall>u. e \<noteq> CloneRepo u)"

subsection \<open>What passes and runs establish\<close>

text \<open>
  What a stretch of passes adds, from state \<open>s\<close> to \<open>s'\<close> with the events \<open>new\<close>:
  only loop events; one history entry per reply; questions asked in normal form with the
  context's history; requests to the chain's model; at most one question per line read;
  and as many replies as questions, but for a last question whose answer failed.
\<close>

definition pass_ok :: "question_context \<Rightarrow> loop_state \<Rightarrow> loop_state \<Rightarrow> event list \<Rightarrow> bool" where
  "pass_ok ctx s s' new \<longleftrightarrow>
     ls_trace s' = ls_trace s @ new \<and> list_all loop_event new
     \<and> ls_history s' = ls_history s @ concat (map (\<lambda>(q, a). history_entry q a) (replies new))
     \<and> list_all (\<lambda>(q, h). h = qc_conversation_history ctx \<and> q = py_strip q \<and> ws_normal q) (asks new)
     \<and> list_all (\<lambda>(m, p). m = llm_model (lc_llm (qc_llm_chain ctx))) (requests new)
     \<and> (\<exists>used. ls_input s = used @ ls_input s' \<and> length (asks new) \<le> length used)
     \<and> length (asks new) =
          length (replies new) + (if \<exists>e. ls_status s' = Stopped (Ask_error e) then 1 else 0)"

text \<open>The sixteen spellings of the exit command that \<open>lower()\<close> maps to \<open>exit()\<close>.\<close>

definition exit_spellings :: "string list" where
  "exit_spellings = [[a, b, c, d] @ ''()''. a \<leftarrow> ''eE'', b \<leftarrow> ''xX'', c \<leftarrow> ''iI'', d \<leftarrow> ''tT'']"

declare loop_prompt_def [model_simps] is_exit_command_def [model_simps]
  history_entry_def [model_simps] error_line_def [model_simps] ask_events_def [model_simps]
  iteration_def [model_simps] replies.simps [model_simps] asks.simps [model_simps]
  requests.simps [model_simps] loop_event_def [model_simps]

subsection \<open>The contract of the loop\<close>

text \<open>
  What the loop promises, after section 4.4 of the specification: an abstract session
  holds the unread lines, the answered (question, answer) pairs and the status; one step
  reads a line, stops on the exact sentinel \<open>exit()\<close>, and otherwise passes the line to
  the answerer (which normalises it, section 4.3), records the pair or stops on the
  exception; the end of the input stops the session.  The answerer is a parameter.  The
  session runs under \<open>while_option\<close>, so the contract says nothing about termination.
\<close>

record spec_state =
  sp_input :: "string list"
  sp_pairs :: "(string \<times> string) list"
  sp_status :: loop_status

definition spec_step :: "(string \<Rightarrow> exc + string) \<Rightarrow> spec_state \<Rightarrow> spec_state" where
  "spec_step ask a =
     (case sp_input a of
        [] \<Rightarrow> a\<lparr>sp_status := Stopped (Input_error EOFError)\<rparr>
      | l # r \<Rightarrow>
          (if l = ''exit()'' then a\<lparr>sp_input := r, sp_status := Stopped Exit_command\<rparr>
           else (case ask (format_user_question l) of
                   Inl e \<Rightarrow> a\<lparr>sp_input := r, sp_status := Stopped (Ask_error e)\<rparr>
                 | Inr ans \<Rightarrow> a\<lparr>sp_input := r, sp_pairs := sp_pairs a @ [(format_user_question l, ans)]\<rparr>)))"

definition spec_run :: "(string \<Rightarrow> exc + string) \<Rightarrow> spec_state \<Rightarrow> spec_state option" where
  "spec_run ask = while_option (\<lambda>a. sp_status a = Running) (spec_step ask)"

text \<open>
  The coupling of a loop state with an abstract session: the same unread lines and
  status, and the local \<open>conversation_history\<close> of line 71 is the text of the abstract
  pairs, one \<open>Question: \<dots> Answer: \<dots>\<close> entry per pair, in order.
\<close>

definition loop_couple :: "loop_state \<Rightarrow> spec_state \<Rightarrow> bool" where
  "loop_couple s a \<longleftrightarrow> sp_input a = ls_input s \<and> sp_status a = ls_status s
     \<and> ls_history s = concat (map (\<lambda>(q, ans). history_entry q ans) (sp_pairs a))"

text \<open>The lines on which the code's exit test and the sentinel of the contract agree.\<close>

definition exact_exits :: "string list \<Rightarrow> bool" where
  "exact_exits ls \<longleftrightarrow> list_all (\<lambda>l. is_exit_command l \<longrightarrow> l = ''exit()'') ls"

declare spec_step_def [model_simps]

subsection \<open>The key that \<open>load_dotenv\<close> and \<open>os.getenv\<close> give\<close>

lemma openai_api_key_stdin [simp]: "openai_api_key (w\<lparr>w_stdin := i\<rparr>) = openai_api_key w"
  by (simp add: openai_api_key_def)

lemma openai_api_key_clone [simp]: "openai_api_key (w\<lparr>w_clone := c\<rparr>) = openai_api_key w"
  by (simp add: openai_api_key_def)

lemma openai_api_key_index_cfg [simp]: "openai_api_key (w\<lparr>w_index_cfg := c\<rparr>) = openai_api_key w"
  by (simp add: openai_api_key_def)

lemma openai_api_key_llm [simp]: "openai_api_key (w\<lparr>w_llm := l\<rparr>) = openai_api_key w"
  by (simp add: openai_api_key_def)

subsection \<open>Passes of the loop\<close>

lemma replies_append [simp]: "replies (xs @ ys) = replies xs @ replies ys"
  by (induction xs rule: replies.induct) auto

lemma asks_append [simp]: "asks (xs @ ys) = asks xs @ asks ys"
  by (induction xs rule: asks.induct) auto

lemma requests_append [simp]: "requests (xs @ ys) = requests xs @ requests ys"
  by (induction xs rule: requests.induct) auto

lemma ask_events_facts:
  "list_all loop_event (ask_events w ctx q) \<and> replies (ask_events w ctx q) = []
   \<and> asks (ask_events w ctx q) = [(q, qc_conversation_history ctx)]
   \<and> list_all (\<lambda>(m, p). m = llm_model (lc_llm (qc_llm_chain ctx))) (requests (ask_events w ctx q))"
  by (auto simp: ask_events_def loop_event_def split: sum.splits)

lemma format_user_question_normal:
  "py_strip (format_user_question q) = format_user_question q \<and> ws_normal (format_user_question q)"
  by (simp add: format_user_question_def strip_strip ws_normal_strip ws_normal_collapse)

lemma iteration_pass:
  "ls_status s = Running \<Longrightarrow> \<exists>new. pass_ok ctx s (iteration cfg w ctx s) new"
proof (cases "ls_input s")
  assume run: "ls_status s = Running"
  case Nil
  with run show ?thesis
    by (auto simp: pass_ok_def iteration_def loop_event_def)
next
  assume run: "ls_status s = Running"
  case (Cons line rest)
  have used: "ls_input s = [line] @ rest" using Cons by simp
  let ?q = "format_user_question line"
  have af: "list_all loop_event (ask_events w ctx ?q)" "replies (ask_events w ctx ?q) = []"
    "asks (ask_events w ctx ?q) = [(?q, qc_conversation_history ctx)]"
    "list_all (\<lambda>(m, p). m = llm_model (lc_llm (qc_llm_chain ctx))) (requests (ask_events w ctx ?q))"
    using ask_events_facts by blast+
  have nq: "?q = py_strip ?q \<and> ws_normal ?q" using format_user_question_normal by metis
  show ?thesis
  proof (cases "is_exit_command line")
    case True
    with Cons used show ?thesis by (auto simp: pass_ok_def iteration_def loop_event_def)
  next
    case False
    show ?thesis
    proof (cases "ask_question (w_retrieval w) (w_llm w) ?q ctx")
      case (Inl e)
      with Cons False af nq used run show ?thesis
        by (auto simp: pass_ok_def iteration_def loop_event_def Let_def)
    next
      case (Inr a)
      with Cons False af nq used run show ?thesis
        by (auto simp: pass_ok_def iteration_def loop_event_def Let_def)
    qed
  qed
qed

lemma pass_ok_trans:
  "pass_ok ctx s0 s n1 \<Longrightarrow> ls_status s = Running \<Longrightarrow> pass_ok ctx s s' n2 \<Longrightarrow>
     pass_ok ctx s0 s' (n1 @ n2)"
  unfolding pass_ok_def by fastforce

lemma pass_ok_refl: "ls_status s = Running \<Longrightarrow> pass_ok ctx s s []"
  by (auto simp: pass_ok_def)

lemma loop_reach_pass:
  "loop_reach cfg w ctx s0 s \<Longrightarrow> ls_status s0 = Running \<Longrightarrow> \<exists>new. pass_ok ctx s0 s new"
proof (induction rule: loop_reach.induct)
  case start
  then show ?case using pass_ok_refl by blast
next
  case (step s)
  then obtain n1 where "pass_ok ctx s0 s n1" by blast
  moreover obtain n2 where "pass_ok ctx s (iteration cfg w ctx s) n2"
    using iteration_pass step.hyps(2) by blast
  ultimately show ?case using step.hyps(2) pass_ok_trans by blast
qed

lemma iteration_extends:
  "prefix (ls_history s) (ls_history (iteration cfg w ctx s))
   \<and> prefix (ls_trace s) (ls_trace (iteration cfg w ctx s))"
  by (simp add: iteration_def Let_def split: list.split sum.split)

lemma qa_loop_reach:
  "loop_reach cfg w ctx s0 s \<Longrightarrow> loop_reach cfg w ctx s0 (qa_loop cfg w ctx s)"
proof (induction cfg w ctx s rule: qa_loop.induct)
  case (1 cfg w ctx s)
  show ?case
  proof (cases "ls_status s = Running")
    case True
    with "1.prems" have "loop_reach cfg w ctx s0 (iteration cfg w ctx s)"
      by (rule loop_reach.step)
    with True "1.IH" show ?thesis by (simp add: qa_loop.simps [of cfg w ctx s])
  next
    case False
    with "1.prems" show ?thesis by (simp add: qa_loop.simps [of cfg w ctx s])
  qed
qed

lemma qa_loop_stops: "ls_status (qa_loop cfg w ctx s) \<noteq> Running"
proof (induction cfg w ctx s rule: qa_loop.induct)
  case (1 cfg w ctx s)
  then show ?case by (cases "ls_status s = Running") (simp_all add: qa_loop.simps [of cfg w ctx s])
qed

lemma qa_loop_pass:
  "ls_status s = Running \<Longrightarrow> \<exists>new. pass_ok ctx s (qa_loop cfg w ctx s) new"
  using loop_reach_pass qa_loop_reach loop_reach.start by blast

text \<open>One pass of the loop at a time, for running the loop on a concrete input.\<close>

lemma qa_loop_running:
  "ls_status s = Running \<Longrightarrow> qa_loop cfg w ctx s = qa_loop cfg w ctx (iteration cfg w ctx s)"
  by (subst qa_loop.simps) simp

lemma qa_loop_stopped: "ls_status s \<noteq> Running \<Longrightarrow> qa_loop cfg w ctx s = s"
  by (subst qa_loop.simps) simp

text \<open>
  Every pass that runs lowers the measure; a property of each pass that a map \<open>f\<close>
  carries to a step \<open>c\<close> carries the whole loop to \<open>while_option\<close> over \<open>c\<close>.
\<close>

lemma iteration_measure:
  "ls_status s = Running \<Longrightarrow> loop_measure (iteration cfg w ctx s) < loop_measure s"
  by (auto simp: iteration_def loop_measure_def Let_def split: list.splits sum.splits)

lemma qa_loop_simulation:
  assumes step: "\<And>s. ls_status s = Running \<Longrightarrow> f (iteration cfg w ctx s) = c (f s)"
    and guard: "\<And>s. b (f s) \<longleftrightarrow> ls_status s = Running"
  shows "while_option b c (f s) = Some (f (qa_loop cfg w ctx s))"
proof (induction s rule: measure_induct_rule [of loop_measure])
  case (less s)
  show ?case
  proof (cases "ls_status s = Running")
    case True
    have "while_option b c (f s) = while_option b c (c (f s))"
      using guard [of s] True by (subst while_option_unfold) simp
    also have "\<dots> = while_option b c (f (iteration cfg w ctx s))" using step [OF True] by simp
    also have "\<dots> = Some (f (qa_loop cfg w ctx (iteration cfg w ctx s)))"
      using less [OF iteration_measure [OF True]] .
    finally show ?thesis using qa_loop_running [OF True] by simp
  next
    case False
    then show ?thesis using guard [of s] qa_loop_stopped [OF False]
      by (subst while_option_unfold) simp
  qed
qed

text \<open>
  The loop reads the world only through the retriever and the model: the standard input
  was consumed into the state, and the key into the context, before it starts.
\<close>

lemma iteration_world_cong:
  assumes "w_retrieval w' = w_retrieval w" and "w_llm w' = w_llm w"
  shows "iteration cfg w' ctx = iteration cfg w ctx"
  unfolding iteration_def ask_events_def assms ..

lemma qa_loop_world_cong:
  assumes "w_retrieval w' = w_retrieval w" and "w_llm w' = w_llm w"
  shows "qa_loop cfg w' ctx s = qa_loop cfg w ctx s"
proof -
  have "while_option (\<lambda>s. ls_status s = Running) (iteration cfg w ctx) s = Some (qa_loop cfg w' ctx s)"
    using qa_loop_simulation [where f = id and c = "iteration cfg w ctx" and w = w']
      iteration_world_cong [OF assms] by simp
  moreover have "while_option (\<lambda>s. ls_status s = Running) (iteration cfg w ctx) s = Some (qa_loop cfg w ctx s)"
    using qa_loop_simulation [where f = id and c = "iteration cfg w ctx" and w = w] by simp
  ultimately show ?thesis by simp
qed

lemma is_exit_command_sentinel: "is_exit_command ''exit()''"
  by code_simp

lemma iteration_input: "ls_input (iteration cfg w ctx s) = tl (ls_input s)"
  by (simp add: iteration_def Let_def split: list.split sum.split)

lemma iteration_couple:
  assumes "ls_status s = Running" and "loop_couple s a" and "exact_exits (ls_input s)"
  shows "loop_couple (iteration cfg w ctx s) (spec_step (\<lambda>q. ask_question (w_retrieval w) (w_llm w) q ctx) a)"
  using assms is_exit_command_sentinel
  by (auto simp: iteration_def spec_step_def loop_couple_def exact_exits_def Let_def
      split: list.splits sum.splits)

lemma exact_exits_tl: "exact_exits ls \<Longrightarrow> exact_exits (tl ls)"
  by (cases ls) (simp_all add: exact_exits_def)

text \<open>A loop left on an exception has printed the exception last.\<close>

lemma iteration_error_tail:
  assumes "ls_status s = Running"
    and "ls_status (iteration cfg w ctx s) = Stopped (Ask_error e)
         \<or> ls_status (iteration cfg w ctx s) = Stopped (Input_error e)"
  shows "\<exists>t. ls_trace (iteration cfg w ctx s) = t @ [Print (error_line e)]"
  using assms by (auto simp: iteration_def Let_def split: list.splits if_splits sum.splits)

lemma qa_loop_error_tail:
  assumes "ls_status s = Running"
    and "ls_status (qa_loop cfg w ctx s) = Stopped (Ask_error e)
         \<or> ls_status (qa_loop cfg w ctx s) = Stopped (Input_error e)"
  shows "\<exists>t. ls_trace (qa_loop cfg w ctx s) = t @ [Print (error_line e)]"
  using assms
proof (induction s rule: measure_induct_rule [of loop_measure])
  case (less s)
  have eq: "qa_loop cfg w ctx s = qa_loop cfg w ctx (iteration cfg w ctx s)"
    using qa_loop_running [OF less.prems(1)] .
  show ?case
  proof (cases "ls_status (iteration cfg w ctx s) = Running")
    case True
    then show ?thesis
      using less.IH [OF iteration_measure [OF less.prems(1), of cfg w ctx] True] less.prems(2) eq by simp
  next
    case False
    then show ?thesis
      using iteration_error_tail [OF less.prems(1)] less.prems(2) eq qa_loop_stopped [OF False] by simp
  qed
qed

text \<open>
  With the chain's prompt, every question a pass asks is followed by one request whose
  prompt contains the question and the documents retrieved for it.
\<close>

lemma iteration_grounded:
  assumes "lc_prompt (qc_llm_chain ctx) = prompt" and "ls_status s = Running"
  shows "\<exists>new. ls_trace (iteration cfg w ctx s) = ls_trace s @ new
    \<and> list_all2 (\<lambda>(q, h) (m, p). sublist q p
          \<and> sublist (format_documents (search_documents (w_retrieval w) q (qc_index ctx))) p)
        (asks new) (requests new)"
proof (cases "ls_input s")
  case Nil
  then show ?thesis by (simp add: iteration_def)
next
  case (Cons line rest)
  let ?q = "format_user_question line"
  obtain p where p: "question_prompt (w_retrieval w) ?q ctx = Inr p"
    using question_prompt_ok [OF assms(1)] by blast
  have parts: "sublist ?q p \<and> sublist (format_documents (search_documents (w_retrieval w) ?q (qc_index ctx))) p"
    by (rule question_prompt_parts [OF assms(1) p])
  have ev: "ask_events w ctx ?q = [Ask ?q (qc_conversation_history ctx), LlmRequest (llm_model (lc_llm (qc_llm_chain ctx))) p]"
    using p by (simp add: ask_events_def)
  show ?thesis
    using Cons parts ev by (auto simp: iteration_def Let_def split: sum.splits)
qed

lemma qa_loop_grounded:
  assumes "lc_prompt (qc_llm_chain ctx) = prompt"
  shows "\<exists>new. ls_trace (qa_loop cfg w ctx s) = ls_trace s @ new
    \<and> list_all2 (\<lambda>(q, h) (m, p). sublist q p
          \<and> sublist (format_documents (search_documents (w_retrieval w) q (qc_index ctx))) p)
        (asks new) (requests new)"
proof (induction s rule: measure_induct_rule [of loop_measure])
  case (less s)
  show ?case
  proof (cases "ls_status s = Running")
    case True
    obtain new1 where n1: "ls_trace (iteration cfg w ctx s) = ls_trace s @ new1"
      and g1: "list_all2 (\<lambda>(q, h) (m, p). sublist q p
          \<and> sublist (format_documents (search_documents (w_retrieval w) q (qc_index ctx))) p)
        (asks new1) (requests new1)"
      using iteration_grounded [OF assms True] by blast
    obtain new2 where n2: "ls_trace (qa_loop cfg w ctx (iteration cfg w ctx s)) = ls_trace (iteration cfg w ctx s) @ new2"
      and g2: "list_all2 (\<lambda>(q, h) (m, p). sublist q p
          \<and> sublist (format_documents (search_documents (w_retrieval w) q (qc_index ctx))) p)
        (asks new2) (requests new2)"
      using less [OF iteration_measure [OF True, of cfg w ctx]] by blast
    show ?thesis
      using n1 n2 g1 g2 qa_loop_running [OF True, of cfg w ctx]
      by (intro exI [of _ "new1 @ new2"]) (simp add: list_all2_appendI)
  next
    case False
    then show ?thesis using qa_loop_stopped [OF False] by simp
  qed
qed

text \<open>The loop when every call of the model returns an answer.\<close>

lemma ask_question_answers:
  assumes "lc_prompt (qc_llm_chain ctx) = prompt" and "\<forall>m p. \<exists>a. w_llm w m p = Inr a"
  obtains p a where "question_prompt (w_retrieval w) q ctx = Inr p"
    and "ask_question (w_retrieval w) (w_llm w) q ctx = Inr a"
    and "ask_events w ctx q = [Ask q (qc_conversation_history ctx), LlmRequest (llm_model (lc_llm (qc_llm_chain ctx))) p]"
proof -
  obtain p where p: "question_prompt (w_retrieval w) q ctx = Inr p"
    using question_prompt_ok [OF assms(1)] by blast
  obtain a where a: "w_llm w (lc_llm (qc_llm_chain ctx)) p = Inr a" using assms(2) by blast
  show ?thesis using that [OF p] p a by (simp add: ask_question_def ask_events_def)
qed

lemma qa_loop_answers:
  assumes "lc_prompt (qc_llm_chain ctx) = prompt" and "\<forall>m p. \<exists>a. w_llm w m p = Inr a"
    and "ls_status s = Running" and "ls_input s = ls"
  shows "\<exists>new. ls_trace (qa_loop cfg w ctx s) = ls_trace s @ new
     \<and> asks new = map (\<lambda>l. (format_user_question l, qc_conversation_history ctx))
                      (takeWhile (\<lambda>l. \<not> is_exit_command l) ls)
     \<and> map fst (replies new) = map format_user_question (takeWhile (\<lambda>l. \<not> is_exit_command l) ls)
     \<and> ls_status (qa_loop cfg w ctx s) =
         Stopped (if list_ex is_exit_command ls then Exit_command else Input_error EOFError)"
  using assms(3,4)
proof (induction ls arbitrary: s)
  case Nil
  then have "ls_status (iteration cfg w ctx s) = Stopped (Input_error EOFError)"
    and "ls_trace (iteration cfg w ctx s) = ls_trace s @ [Prompt (loop_prompt cfg), Print (error_line EOFError)]"
    by (simp_all add: iteration_def)
  then show ?case using Nil by (simp add: qa_loop_running [OF Nil(1)] qa_loop_stopped)
next
  case (Cons l ls)
  show ?case
  proof (cases "is_exit_command l")
    case True
    then have "ls_status (iteration cfg w ctx s) = Stopped Exit_command"
      and "ls_trace (iteration cfg w ctx s) = ls_trace s @ [Prompt (loop_prompt cfg), Input l]"
      using Cons.prems by (simp_all add: iteration_def)
    then show ?thesis using True by (simp add: qa_loop_running [OF Cons.prems(1)] qa_loop_stopped)
  next
    case False
    obtain p a where a: "ask_question (w_retrieval w) (w_llm w) (format_user_question l) ctx = Inr a"
      and ev: "ask_events w ctx (format_user_question l) =
        [Ask (format_user_question l) (qc_conversation_history ctx), LlmRequest (llm_model (lc_llm (qc_llm_chain ctx))) p]"
      using ask_question_answers [OF assms(1,2)] by blast
    let ?s1 = "iteration cfg w ctx s"
    have s1: "ls_status ?s1 = Running" "ls_input ?s1 = ls"
      "ls_trace ?s1 = ls_trace s @ [Prompt (loop_prompt cfg), Input l, Print ''Thinking...'',
         Ask (format_user_question l) (qc_conversation_history ctx), LlmRequest (llm_model (lc_llm (qc_llm_chain ctx))) p,
         Reply (format_user_question l) a,
         Print (cfg_green cfg @ ''\<newline>ANSWER\<newline>'' @ a @ cfg_reset cfg @ ''\<newline>'')]"
      using Cons.prems False a ev by (simp_all add: iteration_def Let_def)
    obtain new where ih: "ls_trace (qa_loop cfg w ctx ?s1) = ls_trace ?s1 @ new"
      "asks new = map (\<lambda>l. (format_user_question l, qc_conversation_history ctx)) (takeWhile (\<lambda>l. \<not> is_exit_command l) ls)"
      "map fst (replies new) = map format_user_question (takeWhile (\<lambda>l. \<not> is_exit_command l) ls)"
      "ls_status (qa_loop cfg w ctx ?s1) = Stopped (if list_ex is_exit_command ls then Exit_command else Input_error EOFError)"
      using Cons.IH [OF s1(1,2)] by blast
    show ?thesis
      using ih s1(3) False by (simp add: qa_loop_running [OF Cons.prems(1)])
  qed
qed

lemma count_loop_events:
  "list_all loop_event es \<Longrightarrow>
     count_list es TmpCreate = 0 \<and> count_list es TmpRemove = 0 \<and> count_list es IndexRepo = 0"
  by (induction es) (auto simp: loop_event_def)

subsection \<open>The exit command\<close>

lemma py_lower_char_inv:
  "\<not> py_is_upper x \<Longrightarrow> py_lower_char c = x \<Longrightarrow>
     c = x \<or> (py_is_upper c \<and> c = char_of (of_char x - (32::nat)))"
  using py_lower_char_eq_iff [of x c] by (metis add_diff_cancel_right' char_of_char)

lemma exit_spellings_set:
  "set exit_spellings = (\<lambda>(a, b, c, d). [a, b, c, d] @ ''()'') ` (set ''eE'' \<times> set ''xX'' \<times> set ''iI'' \<times> set ''tT'')"
  unfolding exit_spellings_def by force

lemma lower_to_letter:
  assumes "\<not> py_is_upper x" and "char_of (of_char x - (32::nat)) = y" and "py_lower_char c = x"
  shows "c \<in> {x, y}"
  using py_lower_char_inv [OF assms(1,3)] assms(2) by blast

lemma lower_to_nonletter:
  assumes "\<not> py_is_upper x" and "\<not> py_is_upper (char_of (of_char x - (32::nat)))"
    and "py_lower_char c = x"
  shows "c = x"
  using py_lower_char_inv [OF assms(1,3)] assms(2) by blast

lemma lower_exit_spelling: "py_lower line = ''exit()'' \<Longrightarrow> line \<in> set exit_spellings"
proof -
  assume "py_lower line = ''exit()''"
  then have m: "map py_lower_char line = ''exit()''" by (simp add: py_lower_def)
  then have len: "length line = 6" using arg_cong [of _ _ length] by fastforce
  have "line = [line ! 0, line ! 1, line ! 2, line ! 3, line ! 4, line ! 5]"
    using len by (simp add: list_eq_iff_nth_eq nth_Cons' eval_nat_numeral less_Suc_eq)
  then obtain a b c d e f where line: "line = [a, b, c, d, e, f]" by blast
  have l: "py_lower_char a = CHR ''e''" "py_lower_char b = CHR ''x''" "py_lower_char c = CHR ''i''"
      "py_lower_char d = CHR ''t''" "py_lower_char e = CHR ''(''" "py_lower_char f = CHR '')''"
    using m unfolding line by simp_all
  have "a \<in> {CHR ''e'', CHR ''E''}"
    by (rule lower_to_letter [OF _ _ l(1)]) (simp add: py_is_upper_def, code_simp)
  moreover have "b \<in> {CHR ''x'', CHR ''X''}"
    by (rule lower_to_letter [OF _ _ l(2)]) (simp add: py_is_upper_def, code_simp)
  moreover have "c \<in> {CHR ''i'', CHR ''I''}"
    by (rule lower_to_letter [OF _ _ l(3)]) (simp add: py_is_upper_def, code_simp)
  moreover have "d \<in> {CHR ''t'', CHR ''T''}"
    by (rule lower_to_letter [OF _ _ l(4)]) (simp add: py_is_upper_def, code_simp)
  ultimately have prod: "(a, b, c, d) \<in> set ''eE'' \<times> set ''xX'' \<times> set ''iI'' \<times> set ''tT''"
    by (intro SigmaI) simp_all
  have "e = CHR ''(''" by (rule lower_to_nonletter [OF _ _ l(5)]) code_simp+
  moreover have "f = CHR '')''" by (rule lower_to_nonletter [OF _ _ l(6)]) code_simp+
  ultimately have "line = (\<lambda>(a, b, c, d). [a, b, c, d] @ ''()'') (a, b, c, d)"
    using line by simp
  then show ?thesis unfolding exit_spellings_set by (rule image_eqI [OF _ prod])
qed

lemma exit_spellings_lower: "line \<in> set exit_spellings \<Longrightarrow> py_lower line = ''exit()''"
proof -
  have "\<forall>l \<in> set exit_spellings. py_lower l = ''exit()''" by code_simp
  then show "line \<in> set exit_spellings \<Longrightarrow> py_lower line = ''exit()''" by blast
qed

subsection \<open>Properties of the loop\<close>

text \<open>
  C6. The loop's exit test accepts exactly the sixteen upper/lower-case spellings of
  \<open>exit()\<close>, not only the exact sentinel.
\<close>

theorem exit_command_spellings: "is_exit_command line \<longleftrightarrow> line \<in> set exit_spellings"
  unfolding is_exit_command_def using exit_spellings_lower lower_exit_spelling by blast

theorem exit_command_spellings_witness: "is_exit_command ''ExIT()'' \<and> ''ExIT()'' \<in> set exit_spellings"
proof -
  have h: "is_exit_command ''ExIT()''" by code_simp
  show ?thesis using conjI [OF h exit_command_spellings [THEN iffD1, OF h]] .
qed

text \<open>
  C3. The loop implements the read-evaluate-print contract of section 4.4, history
  included: from a state coupled with an abstract session, on input where only the exact
  sentinel is an exit command, the abstract session (with \<open>ask_question\<close> on the
  context as the answerer) stops, in a state coupled with the state the loop returns.
\<close>

theorem qa_loop_refines:
  assumes "loop_couple s a" and "exact_exits (ls_input s)"
  shows "\<exists>a'. spec_run (\<lambda>q. ask_question (w_retrieval w) (w_llm w) q ctx) a = Some a'
           \<and> loop_couple (qa_loop cfg w ctx s) a'"
  using assms
proof (induction s arbitrary: a rule: measure_induct_rule [of loop_measure])
  case (less s)
  let ?ask = "\<lambda>q. ask_question (w_retrieval w) (w_llm w) q ctx"
  show ?case
  proof (cases "ls_status s = Running")
    case True
    have run: "sp_status a = Running" using less.prems(1) True by (simp add: loop_couple_def)
    have c: "loop_couple (iteration cfg w ctx s) (spec_step ?ask a)"
      by (rule iteration_couple [OF True less.prems])
    have e: "exact_exits (ls_input (iteration cfg w ctx s))"
      using exact_exits_tl [OF less.prems(2)] by (simp add: iteration_input)
    obtain a' where a': "spec_run ?ask (spec_step ?ask a) = Some a'"
      and c': "loop_couple (qa_loop cfg w ctx (iteration cfg w ctx s)) a'"
      using less.IH [OF iteration_measure [OF True] c e] by blast
    have "spec_run ?ask a = Some a'"
      using run a' unfolding spec_run_def by (subst while_option_unfold) simp
    then show ?thesis using c' qa_loop_running [OF True] by auto
  next
    case False
    have "sp_status a \<noteq> Running" using less.prems(1) False by (simp add: loop_couple_def)
    then have "spec_run ?ask a = Some a" unfolding spec_run_def by (subst while_option_unfold) simp
    then show ?thesis using less.prems(1) qa_loop_stopped [OF False] by auto
  qed
qed

text \<open>
  C18. Every session ends, and soon: after at most one pass per unread line plus one, the
  loop has taken a \<open>break\<close>.
\<close>

theorem qa_loop_passes_bound:
  "\<exists>n \<le> length (ls_input s) + 1. qa_loop cfg w ctx s = (iteration cfg w ctx ^^ n) s
     \<and> ls_status ((iteration cfg w ctx ^^ n) s) \<noteq> Running"
proof -
  have "\<exists>n \<le> loop_measure s. qa_loop cfg w ctx s = (iteration cfg w ctx ^^ n) s"
  proof (induction s rule: measure_induct_rule [of loop_measure])
    case (less s)
    show ?case
    proof (cases "ls_status s = Running")
      case True
      obtain n where n: "n \<le> loop_measure (iteration cfg w ctx s)"
        "qa_loop cfg w ctx (iteration cfg w ctx s) = (iteration cfg w ctx ^^ n) (iteration cfg w ctx s)"
        using less [OF iteration_measure [OF True, of cfg w ctx]] by blast
      have "Suc n \<le> loop_measure s" using n(1) iteration_measure [OF True, of cfg w ctx] by simp
      moreover have "qa_loop cfg w ctx s = (iteration cfg w ctx ^^ Suc n) s"
        using n(2) qa_loop_running [OF True, of cfg w ctx] by (simp add: funpow_swap1)
      ultimately show ?thesis by blast
    next
      case False
      then show ?thesis using qa_loop_stopped [OF False] by (intro exI [of _ 0]) simp
    qed
  qed
  moreover have "loop_measure s \<le> length (ls_input s) + 1" by (simp add: loop_measure_def)
  ultimately show ?thesis using qa_loop_stops [of cfg w ctx s] by (metis order_trans)
qed

text \<open>
  C27. The conversation history and the output are append-only: along any run of the
  loop, the history and the trace of an earlier state are prefixes of those of every
  later one.
\<close>

theorem loop_reach_append_only:
  assumes "loop_reach cfg w ctx s0 s"
  shows "prefix (ls_history s0) (ls_history s) \<and> prefix (ls_trace s0) (ls_trace s)"
  using assms
proof (induction rule: loop_reach.induct)
  case start
  show ?case by simp
next
  case (step s)
  then show ?case using iteration_extends [of s cfg w ctx] by (meson prefix_order.trans)
qed

end
