(* ===== verification/Session.thy ===== *)
theory Session
  imports Loop
begin

text \<open>
  The program itself: \<open>main()\<close> of \<open>src/main.py\<close> (lines 15 to 77).  A run reads the
  repository URL, derives the repository name, clones into a temporary directory, indexes
  the clone, builds the model, the prompt and the question context, and then runs the
  \<open>while True\<close> loop of lines 62 to 74 (theory \<open>Loop\<close>) over the remaining input lines.  Everything the
  program does outside itself is an event of a trace: the text it prints or prompts with,
  the lines it reads, the creation and removal of the temporary directory, the calls to the
  cloner, the indexer, the answerer and the hosted model.  The world of a run fixes what
  those calls return.
\<close>

subsection \<open>The result of a run\<close>

datatype outcome = Finished | Sys_exit | Crashed exc

record run =
  r_trace :: "event list"
  r_outcome :: outcome
  r_history :: string       \<comment> \<open>the local \<open>conversation_history\<close> when \<open>main\<close> ends\<close>
  r_stop :: "stop_reason option"  \<comment> \<open>how the question loop ended, if it ran\<close>

subsection \<open>\<open>main()\<close>\<close>

text \<open>Line 17: the repository name is the text after the last slash of the URL.\<close>

definition repo_name_of :: "url \<Rightarrow> string" where
  "repo_name_of url = last (py_split CHR ''/'' url)"

definition url_prompt :: string where
  "url_prompt = ''Enter the GitHub URL of the repository: ''"

text \<open>Line 27: the model object; line 59: the chain.\<close>

definition make_llm :: "string \<Rightarrow> llm" where
  "make_llm key = \<lparr>llm_model = ''gpt-3.5-turbo'', llm_temperature = 0.2, llm_api_key = key\<rparr>"

definition make_context ::
  "app_config \<Rightarrow> url \<Rightarrow> string \<Rightarrow> index \<Rightarrow> document list \<Rightarrow> (ext \<times> nat) list \<Rightarrow> path list
     \<Rightarrow> question_context" where
  "make_context cfg url key idx docs counts names =
     \<lparr>qc_index = idx, qc_documents = docs,
      qc_llm_chain = \<lparr>lc_prompt = prompt, lc_llm = make_llm key\<rparr>,
      qc_model_name = cfg_model_name cfg, qc_repo_name = repo_name_of url, qc_github_url = url,
      qc_conversation_history = [], qc_file_type_counts = counts, qc_filenames = names\<rparr>"

text \<open>
  The key check of \<open>ChatOpenAI(api_key=OPENAI_API_KEY, ...)\<close> at line 27: langchain's
  \<open>get_from_dict_or_env\<close> takes the argument only when it is truthy, and otherwise the
  variable \<open>OPENAI_API_KEY\<close> of the environment only when that is truthy.  After
  \<open>load_dotenv()\<close> both are the string \<open>os.getenv\<close> returned at line 12, so a missing
  key and an empty one are both refused.
\<close>

fun chat_openai_key :: "string option \<Rightarrow> string option" where
  "chat_openai_key None = None"
| "chat_openai_key (Some key) = (if key = [] then None else Some key)"

text \<open>
  The whole run.  Reading the URL at line 16 is outside any \<open>try\<close>: at the end of the
  input the program stops with \<open>EOFError\<close>.  \<open>exit()\<close> at line 24 raises
  \<open>SystemExit\<close>, which leaves the \<open>with\<close> block and so deletes the directory.
  \<open>ChatOpenAI\<close> at line 27 refuses a missing or empty key with a validation error that no
  \<open>try\<close> catches; the directory is deleted on the way out as well.
\<close>

definition main :: "app_config \<Rightarrow> world \<Rightarrow> run" where
  "main cfg w =
     (case w_stdin w of
        [] \<Rightarrow> \<lparr>r_trace = [Prompt url_prompt], r_outcome = Crashed EOFError, r_history = [], r_stop = None\<rparr>
      | url # rest \<Rightarrow>
          (let t0 = [Prompt url_prompt, Input url, Print ''Cloning the repository...'', TmpCreate,
                     CloneRepo url] in
           case w_clone w url of
             None \<Rightarrow>
               \<lparr>r_trace = t0 @ [Print ''Failed to clone the repository.'', TmpRemove],
                r_outcome = Finished, r_history = [], r_stop = None\<rparr>
           | Some files \<Rightarrow>
               (case load_and_index_files (w_index_cfg w) files of
                  (None, docs, counts, names) \<Rightarrow>
                    \<lparr>r_trace = t0 @ [IndexRepo, Print ''No documents were found to index. Exiting.'',
                                     TmpRemove],
                     r_outcome = Sys_exit, r_history = [], r_stop = None\<rparr>
                | (Some idx, docs, counts, names) \<Rightarrow>
                    (let t1 = t0 @ [IndexRepo, Print ''Repository cloned. Indexing files...''] in
                     case chat_openai_key (openai_api_key w) of
                       None \<Rightarrow>
                         \<lparr>r_trace = t1 @ [TmpRemove],
                          r_outcome = Crashed (ValueError ''Did not find openai_api_key''),
                          r_history = [], r_stop = None\<rparr>
                     | Some key \<Rightarrow>
                         (let ctx = make_context cfg url key idx docs counts names;
                              s = qa_loop cfg w ctx
                                    \<lparr>ls_input = rest, ls_history = [], ls_trace = t1,
                                     ls_status = Running\<rparr>
                          in \<lparr>r_trace = ls_trace s @ [TmpRemove], r_outcome = Finished,
                                r_history = ls_history s,
                                r_stop = (case ls_status s of Stopped r \<Rightarrow> Some r | Running \<Rightarrow> None)\<rparr>)))))"

text \<open>The facts every run of \<open>main\<close> satisfies, gathered for the claims below.\<close>

definition run_ok :: "world \<Rightarrow> run \<Rightarrow> bool" where
  "run_ok w r \<longleftrightarrow>
     (let t = r_trace r in
      list_all (\<lambda>(q, h). h = [] \<and> q = py_strip q \<and> ws_normal q) (asks t)
      \<and> list_all (\<lambda>(m, p). m = ''gpt-3.5-turbo'') (requests t)
      \<and> r_history r = concat (map (\<lambda>(q, a). history_entry q a) (replies t))
      \<and> length (asks t) \<le> length (w_stdin w) - 1
      \<and> length (asks t) = length (replies t) + (if \<exists>e. r_stop r = Some (Ask_error e) then 1 else 0)
      \<and> count_list t TmpCreate = count_list t TmpRemove \<and> count_list t TmpCreate \<le> 1
      \<and> (TmpCreate \<in> set t \<longrightarrow> last t = TmpRemove)
      \<and> count_list t IndexRepo \<le> 1 \<and> asks (takeWhile (\<lambda>e. e \<noteq> IndexRepo) t) = [])"

declare repo_name_of_def [model_simps] url_prompt_def [model_simps]
  make_llm_def [model_simps] make_context_def [model_simps] main_def [model_simps]

subsection \<open>Runs of \<open>main\<close>\<close>

text \<open>The five ways through \<open>main\<close>, by the branches it takes.\<close>

lemma chat_openai_key_None_iff: "chat_openai_key k = None \<longleftrightarrow> k = None \<or> k = Some []"
  by (cases k) auto

lemma main_cases [case_names no_url no_clone no_docs no_key loop]:
  obtains "w_stdin w = []"
  | url rest where "w_stdin w = url # rest" and "w_clone w url = None"
  | url rest files docs counts names where "w_stdin w = url # rest" and "w_clone w url = Some files"
      and "load_and_index_files (w_index_cfg w) files = (None, docs, counts, names)"
  | url rest files idx docs counts names where "w_stdin w = url # rest" and "w_clone w url = Some files"
      and "load_and_index_files (w_index_cfg w) files = (Some idx, docs, counts, names)"
      and "chat_openai_key (openai_api_key w) = None"
  | url rest files idx docs counts names key where "w_stdin w = url # rest" and "w_clone w url = Some files"
      and "load_and_index_files (w_index_cfg w) files = (Some idx, docs, counts, names)"
      and "chat_openai_key (openai_api_key w) = Some key"
proof (cases "w_stdin w")
  case Nil
  then show ?thesis by (rule that(1))
next
  case (Cons url rest)
  show ?thesis
  proof (cases "w_clone w url")
    case None
    with Cons show ?thesis by (rule that(2))
  next
    case (Some files)
    obtain idx docs counts names where ld: "load_and_index_files (w_index_cfg w) files = (idx, docs, counts, names)"
      by (cases "load_and_index_files (w_index_cfg w) files") auto
    show ?thesis
    proof (cases idx)
      case None
      with Cons Some ld show ?thesis by (intro that(3)) simp_all
    next
      case (Some i)
      show ?thesis
      proof (cases "chat_openai_key (openai_api_key w)")
        case None
        with Cons \<open>w_clone w url = Some files\<close> ld \<open>idx = Some i\<close> show ?thesis
          by (intro that(4)) simp_all
      next
        case (Some key)
        with Cons \<open>w_clone w url = Some files\<close> ld \<open>idx = Some i\<close> show ?thesis
          by (intro that(5)) simp_all
      qed
    qed
  qed
qed

text \<open>The run of \<open>main\<close> when the repository is cloned, indexed and the key is set.\<close>

lemma main_loop_run:
  assumes "w_stdin w = url # rest" and "w_clone w url = Some files"
    and "load_and_index_files (w_index_cfg w) files = (Some idx, docs, counts, names)"
    and "chat_openai_key (openai_api_key w) = Some key"
  shows "main cfg w =
    (let s = qa_loop cfg w (make_context cfg url key idx docs counts names)
               \<lparr>ls_input = rest, ls_history = [],
                ls_trace = [Prompt url_prompt, Input url, Print ''Cloning the repository...'', TmpCreate,
                            CloneRepo url, IndexRepo, Print ''Repository cloned. Indexing files...''],
                ls_status = Running\<rparr>
     in \<lparr>r_trace = ls_trace s @ [TmpRemove], r_outcome = Finished, r_history = ls_history s,
           r_stop = (case ls_status s of Stopped r \<Rightarrow> Some r | Running \<Rightarrow> None)\<rparr>)"
  using assms by (simp add: main_def Let_def)

lemma main_loop_branch:
  assumes "w_stdin w = url # rest" and "w_clone w url = Some files"
    and "load_and_index_files (w_index_cfg w) files = (Some idx, docs, counts, names)"
    and "chat_openai_key (openai_api_key w) = Some key"
  shows "run_ok w (main cfg w)"
proof -
  define ctx where "ctx = make_context cfg url key idx docs counts names"
  define t1 where "t1 = [Prompt url_prompt, Input url, Print ''Cloning the repository...'', TmpCreate,
                     CloneRepo url, IndexRepo, Print ''Repository cloned. Indexing files...'']"
  define s0 where "s0 = \<lparr>ls_input = rest, ls_history = [], ls_trace = t1, ls_status = Running\<rparr>"
  define s where "s = qa_loop cfg w ctx s0"
  have run: "main cfg w = \<lparr>r_trace = ls_trace s @ [TmpRemove], r_outcome = Finished,
      r_history = ls_history s, r_stop = (case ls_status s of Stopped r \<Rightarrow> Some r | Running \<Rightarrow> None)\<rparr>"
    using main_loop_run [OF assms, of cfg] by (simp add: ctx_def t1_def s0_def s_def Let_def)
  obtain new where p: "pass_ok ctx s0 s new"
    using qa_loop_pass [of s0 ctx cfg w] by (auto simp: s0_def s_def)
  have ctx: "qc_conversation_history ctx = []" "llm_model (lc_llm (qc_llm_chain ctx)) = ''gpt-3.5-turbo''"
    by (simp_all add: ctx_def make_context_def make_llm_def)
  have stop: "ls_status s \<noteq> Running" by (simp add: s_def qa_loop_stops)
  from p have tr: "ls_trace s = t1 @ new" and le: "list_all loop_event new"
    and hist: "ls_history s = concat (map (\<lambda>(q, a). history_entry q a) (replies new))"
    and ak: "list_all (\<lambda>(q, h). h = qc_conversation_history ctx \<and> q = py_strip q \<and> ws_normal q) (asks new)"
    and rq: "list_all (\<lambda>(m, p). m = llm_model (lc_llm (qc_llm_chain ctx))) (requests new)"
    and used: "\<exists>used. rest = used @ ls_input s \<and> length (asks new) \<le> length used"
    and cnt: "length (asks new) = length (replies new) + (if \<exists>e. ls_status s = Stopped (Ask_error e) then 1 else 0)"
    by (auto simp: pass_ok_def s0_def)
  have bound: "length (asks new) \<le> length (w_stdin w) - 1"
    using used assms(1) by auto
  have stop_eq: "(\<exists>e. (case ls_status s of Stopped r \<Rightarrow> Some r | Running \<Rightarrow> None) = Some (Ask_error e))
      = (\<exists>e. ls_status s = Stopped (Ask_error e))"
    using stop by (cases "ls_status s") auto
  show ?thesis
    using run tr le hist ak rq bound cnt ctx stop_eq count_loop_events [OF le]
    by (simp add: run_ok_def t1_def Let_def list_all_iff)
qed

lemma main_run_ok: "run_ok w (main cfg w)"
proof (cases rule: main_cases [of w])
  case (loop url rest files idx docs counts names key)
  then show ?thesis by (rule main_loop_branch)
qed (simp_all add: main_def run_ok_def)

subsection \<open>Properties of the program\<close>

text \<open>
  C1. The conversation history never reaches the answerer: every call of
  \<open>ask_question\<close> in a run gets the question context built at line 61, whose history is
  the empty string, although the local \<open>conversation_history\<close> grows at line 71.
\<close>

theorem main_context_history_empty:
  "(q, h) \<in> set (asks (r_trace (main cfg w))) \<Longrightarrow> h = []"
  using main_run_ok [of w cfg] by (auto simp: run_ok_def Let_def list_all_iff)

text \<open>
  C5. When \<open>main\<close> ends, the local conversation history holds exactly one
  \<open>Question: \<dots> Answer: \<dots>\<close> entry per answered question, in the order they were
  answered, with the normalised question and the answer returned.
\<close>

theorem main_history_replies:
  "r_history (main cfg w) =
     concat (map (\<lambda>(q, a). history_entry q a) (replies (r_trace (main cfg w))))"
  using main_run_ok [of w cfg] by (simp add: run_ok_def Let_def)

text \<open>
  C7. Every question handed to the answerer is normalised: no leading or trailing
  whitespace, every whitespace character a single space between two other characters.
\<close>

theorem main_questions_normal:
  "(q, h) \<in> set (asks (r_trace (main cfg w))) \<Longrightarrow> py_strip q = q \<and> ws_normal q"
  using main_run_ok [of w cfg] by (auto simp: run_ok_def Let_def list_all_iff)

text \<open>
  C8. When cloning fails, the program prints the failure and removes the temporary
  directory; it neither indexes nor asks anything.
\<close>

theorem main_clone_failure:
  assumes "w_stdin w = url # rest" and "w_clone w url = None"
  shows "r_trace (main cfg w) =
      [Prompt url_prompt, Input url, Print ''Cloning the repository...'', TmpCreate, CloneRepo url,
       Print ''Failed to clone the repository.'', TmpRemove]
    \<and> r_outcome (main cfg w) = Finished"
  using assms by (simp add: main_def)

text \<open>
  C9. When no file of the clone passes the filters, the program reports that nothing was
  found and exits through \<open>SystemExit\<close>, removing the directory, before any question.
\<close>

theorem main_no_documents:
  assumes "w_stdin w = url # rest" and "w_clone w url = Some files"
    and "\<forall>f \<in> set files. \<not> indexable (w_index_cfg w) f"
  shows "r_trace (main cfg w) =
      [Prompt url_prompt, Input url, Print ''Cloning the repository...'', TmpCreate, CloneRepo url,
       IndexRepo, Print ''No documents were found to index. Exiting.'', TmpRemove]
    \<and> r_outcome (main cfg w) = Sys_exit"
proof -
  have "fst (load_and_index_files (w_index_cfg w) files) = None"
    using assms(3) index_none_iff by blast
  then obtain docs counts names where
    "load_and_index_files (w_index_cfg w) files = (None, docs, counts, names)"
    by (cases "load_and_index_files (w_index_cfg w) files") auto
  with assms(1,2) show ?thesis by (simp add: main_def)
qed

text \<open>
  C12. The temporary directory is removed on every path that created it, and it is the
  last thing the run does: at most one creation, as many removals as creations.
\<close>

theorem main_tmp_cleanup:
  "count_list (r_trace (main cfg w)) TmpCreate = count_list (r_trace (main cfg w)) TmpRemove
   \<and> count_list (r_trace (main cfg w)) TmpCreate \<le> 1
   \<and> (TmpCreate \<in> set (r_trace (main cfg w)) \<longrightarrow> last (r_trace (main cfg w)) = TmpRemove)"
  using main_run_ok [of w cfg] by (simp add: run_ok_def Let_def)

text \<open>
  C15. An exception of the answerer ends the session: every question asked got its
  answer, except a last one whose answer failed and stopped the loop.
\<close>

theorem main_asks_replies:
  "length (asks (r_trace (main cfg w))) =
     length (replies (r_trace (main cfg w)))
     + (if \<exists>e. r_stop (main cfg w) = Some (Ask_error e) then 1 else 0)"
  using main_run_ok [of w cfg] by (simp add: run_ok_def Let_def)

text \<open>
  C16. Every request to the hosted model names \<open>gpt-3.5-turbo\<close>, the identifier fixed at
  line 27, whatever \<open>config.model_name\<close> (which only goes into the context) says.
\<close>

theorem main_llm_model:
  "(m, p) \<in> set (requests (r_trace (main cfg w))) \<Longrightarrow> m = ''gpt-3.5-turbo''"
  using main_run_ok [of w cfg] by (auto simp: run_ok_def Let_def list_all_iff)

text \<open>
  C17. The answerer is called at most once per input line after the URL.
\<close>

theorem main_asks_bound: "length (asks (r_trace (main cfg w))) \<le> length (w_stdin w) - 1"
  using main_run_ok [of w cfg] by (simp add: run_ok_def Let_def)

text \<open>
  C19. The repository name of line 17 is the text after the last slash of the URL (the
  whole URL when it has none), so a URL that ends with a slash gives an empty name.
\<close>

theorem repo_name_of_eq:
  "repo_name_of url = rev (takeWhile (\<lambda>c. c \<noteq> CHR ''/'') (rev url))"
proof (cases "CHR ''/'' \<in> set url")
  case True
  then show ?thesis
    using last_split_acc [of "CHR ''/''" "[]" url] by (simp add: repo_name_of_def py_split_def)
next
  case False
  then have tw: "takeWhile (\<lambda>c. c \<noteq> CHR ''/'') (rev url) = rev url"
    by (auto simp: takeWhile_eq_all_conv)
  have "repo_name_of url = url"
    using False last_split_acc [of "CHR ''/''" "[]" url] by (simp add: repo_name_of_def py_split_def)
  then show ?thesis by (simp only: tw rev_rev_ident)
qed

lemma make_context_chain:
  "lc_prompt (qc_llm_chain (make_context cfg url key idx docs counts names)) = prompt"
  "lc_llm (qc_llm_chain (make_context cfg url key idx docs counts names)) = make_llm key"
  "qc_index (make_context cfg url key idx docs counts names) = idx"
  by (simp_all add: make_context_def)

text \<open>
  C22. With the context built at line 61, rendering the prompt never fails: every
  question is sent to the model of line 27 with a prompt that contains the question and
  the numbered block of the documents retrieved for it.
\<close>

theorem ask_question_context:
  "\<exists>p. ask_question rt call_llm q (make_context cfg url key idx docs counts names) = call_llm (make_llm key) p
     \<and> sublist q p \<and> sublist (format_documents (search_documents rt q idx)) p"
proof -
  obtain p where p: "question_prompt rt q (make_context cfg url key idx docs counts names) = Inr p"
    using question_prompt_ok [OF make_context_chain(1)] by blast
  show ?thesis
    using question_prompt_parts [OF make_context_chain(1) p] p
    by (auto simp: ask_question_def make_context_chain)
qed

text \<open>
  C23. The rendered prompt carries the top-\<open>K\<close> retrieved documents: for each of the
  first \<open>min K n\<close> documents of the retrieval, most similar first, its numbered entry
  \<open>i. path: content\<close> occurs in the prompt.
\<close>

theorem context_prompt_top_k:
  assumes "question_prompt rt q (make_context cfg url key (Index ds) docs counts names) = Inr p"
  shows "\<forall>i < min (rt_k rt) (length ds).
           sublist (doc_entry (Suc i) (top_k (rt_similarity rt q) (rt_k rt) ds ! i)) p"
proof (intro allI impI)
  fix i assume i: "i < min (rt_k rt) (length ds)"
  have blk: "sublist (format_documents (top_k (rt_similarity rt q) (rt_k rt) ds)) p"
    using question_prompt_parts [OF make_context_chain(1) assms] by (simp add: make_context_chain)
  have "i < length (top_k (rt_similarity rt q) (rt_k rt) ds)" using i by (simp add: length_top_k)
  from format_documents_entry [OF this] blk show "sublist (doc_entry (Suc i) (top_k (rt_similarity rt q) (rt_k rt) ds ! i)) p"
    by (rule sublist_order.order.trans)
qed

text \<open>
  C2. When the clone succeeds, some file qualifies, the key is set and not empty, and the
  model answers
  every request, the session asks exactly the input lines before the first exit command,
  normalised, in order and with an empty history, gets one answer for each, and ends on
  the exit command, or on the end of the input when there is none.
\<close>

theorem main_answers_until_exit:
  assumes "w_stdin w = url # lines" and "w_clone w url = Some files"
    and "\<exists>f \<in> set files. indexable (w_index_cfg w) f" and "openai_api_key w = Some key"
    and "key \<noteq> []" and "\<forall>m p. \<exists>a. w_llm w m p = Inr a"
  shows "asks (r_trace (main cfg w)) =
           map (\<lambda>l. (format_user_question l, [])) (takeWhile (\<lambda>l. \<not> is_exit_command l) lines)
    \<and> map fst (replies (r_trace (main cfg w))) =
           map format_user_question (takeWhile (\<lambda>l. \<not> is_exit_command l) lines)
    \<and> r_stop (main cfg w) =
           Some (if list_ex is_exit_command lines then Exit_command else Input_error EOFError)
    \<and> r_outcome (main cfg w) = Finished"
proof -
  obtain idx docs counts names where ld: "load_and_index_files (w_index_cfg w) files = (idx, docs, counts, names)"
    by (cases "load_and_index_files (w_index_cfg w) files") auto
  have "idx \<noteq> None" using ld assms(3) index_none_iff [of "w_index_cfg w" files] by auto
  then obtain i where i: "idx = Some i" by blast
  define ctx where "ctx = make_context cfg url key i docs counts names"
  define s0 where "s0 = \<lparr>ls_input = lines, ls_history = [],
      ls_trace = [Prompt url_prompt, Input url, Print ''Cloning the repository...'', TmpCreate,
                  CloneRepo url, IndexRepo, Print ''Repository cloned. Indexing files...''],
      ls_status = Running\<rparr>"
  have run: "main cfg w = \<lparr>r_trace = ls_trace (qa_loop cfg w ctx s0) @ [TmpRemove], r_outcome = Finished,
      r_history = ls_history (qa_loop cfg w ctx s0),
      r_stop = (case ls_status (qa_loop cfg w ctx s0) of Stopped r \<Rightarrow> Some r | Running \<Rightarrow> None)\<rparr>"
    using main_loop_run [OF assms(1,2) ld [unfolded i], of key cfg] assms(4,5) by (simp add: ctx_def s0_def Let_def)
  obtain new where "ls_trace (qa_loop cfg w ctx s0) = ls_trace s0 @ new"
    "asks new = map (\<lambda>l. (format_user_question l, qc_conversation_history ctx))
                    (takeWhile (\<lambda>l. \<not> is_exit_command l) lines)"
    "map fst (replies new) = map format_user_question (takeWhile (\<lambda>l. \<not> is_exit_command l) lines)"
    "ls_status (qa_loop cfg w ctx s0) =
       Stopped (if list_ex is_exit_command lines then Exit_command else Input_error EOFError)"
    using qa_loop_answers [of ctx w s0 lines cfg] assms(6) make_context_chain(1) by (auto simp: ctx_def s0_def)
  moreover have "qc_conversation_history ctx = []" by (simp add: ctx_def make_context_def)
  ultimately show ?thesis using run by (simp add: s0_def)
qed

text \<open>
  C13. The repository is indexed at most once per run, and no question is asked before it
  has been indexed.
\<close>

theorem main_index_once:
  "count_list (r_trace (main cfg w)) IndexRepo \<le> 1
   \<and> asks (takeWhile (\<lambda>e. e \<noteq> IndexRepo) (r_trace (main cfg w))) = []"
  using main_run_ok [of w cfg] by (simp add: run_ok_def Let_def)

text \<open>
  C24. The question context of line 61 carries what the indexer of line 21 produced:
  the index over exactly the documents of the accepted, decodable files, in walk order;
  extension counts that add up to the number of documents and give each extension's
  number of documents; and the documents' paths as filenames.
\<close>

theorem context_counts:
  assumes "load_and_index_files cfg files = (Some idx, docs, counts, names)"
  shows "qc_index (make_context c url key idx docs counts names)
           = Index (qc_documents (make_context c url key idx docs counts names))
    \<and> qc_documents (make_context c url key idx docs counts names) = map to_document (filter (indexable cfg) files)
    \<and> sum_list (map snd (qc_file_type_counts (make_context c url key idx docs counts names)))
           = length (qc_documents (make_context c url key idx docs counts names))
    \<and> (\<forall>e. map_of (qc_file_type_counts (make_context c url key idx docs counts names)) e =
          (let n = count_list (map (\<lambda>d. ext_of (doc_source d)) (qc_documents (make_context c url key idx docs counts names))) e
           in if n = 0 then None else Some n))
    \<and> qc_filenames (make_context c url key idx docs counts names)
           = map doc_source (qc_documents (make_context c url key idx docs counts names))"
  using index_documents [OF assms] index_counts_sum [OF assms] index_counts_lookup [OF assms]
  by (auto simp: make_context_def split: if_splits)

text \<open>
  C10. The program crashes in two ways only: at the end of the input at the URL prompt
  (line 16, before any directory exists), or with a missing or empty API key (line 27,
  outside any \<open>try\<close>), which happens after indexing, removes the directory, and asks
  nothing.
\<close>

theorem main_crash_cases:
  assumes "r_outcome (main cfg w) = Crashed e"
  shows "(w_stdin w = [] \<and> e = EOFError \<and> r_trace (main cfg w) = [Prompt url_prompt])
    \<or> ((openai_api_key w = None \<or> openai_api_key w = Some []) \<and> IndexRepo \<in> set (r_trace (main cfg w))
       \<and> last (r_trace (main cfg w)) = TmpRemove \<and> asks (r_trace (main cfg w)) = [])"
  using assms
proof (cases rule: main_cases [of w])
  case (loop url rest files idx docs counts names key)
  then show ?thesis using assms main_loop_run [OF loop, of cfg] by (simp add: Let_def)
next
  case (no_key url rest files idx docs counts names)
  then have "openai_api_key w = None \<or> openai_api_key w = Some []"
    by (simp only: chat_openai_key_None_iff)
  with no_key show ?thesis by (simp add: main_def)
qed (simp_all add: main_def)

text \<open>
  C11. An exception caught by the loop (from the answerer, or the end of the input) is
  reported: the last output is \<open>An error occurred: \<close> with its message, followed only by
  the removal of the directory.
\<close>

theorem main_error_reported:
  assumes "r_stop (main cfg w) = Some (Ask_error e) \<or> r_stop (main cfg w) = Some (Input_error e)"
  shows "\<exists>t. r_trace (main cfg w) = t @ [Print (error_line e), TmpRemove]"
  using assms
proof (cases rule: main_cases [of w])
  case (loop url rest files idx docs counts names key)
  define s0 where "s0 = \<lparr>ls_input = rest, ls_history = [],
      ls_trace = [Prompt url_prompt, Input url, Print ''Cloning the repository...'', TmpCreate,
                  CloneRepo url, IndexRepo, Print ''Repository cloned. Indexing files...''],
      ls_status = Running\<rparr>"
  define s where "s = qa_loop cfg w (make_context cfg url key idx docs counts names) s0"
  have run: "main cfg w = \<lparr>r_trace = ls_trace s @ [TmpRemove], r_outcome = Finished, r_history = ls_history s,
      r_stop = (case ls_status s of Stopped r \<Rightarrow> Some r | Running \<Rightarrow> None)\<rparr>"
    using main_loop_run [OF loop, of cfg] by (simp add: s_def s0_def Let_def)
  have st: "ls_status s = Stopped (Ask_error e) \<or> ls_status s = Stopped (Input_error e)"
    using assms run by (cases "ls_status s") auto
  have r0: "ls_status s0 = Running" by (simp add: s0_def)
  from qa_loop_error_tail [OF r0 st [unfolded s_def]] obtain t
    where "ls_trace (qa_loop cfg w (make_context cfg url key idx docs counts names) s0) = t @ [Print (error_line e)]" ..
  then have "ls_trace s = t @ [Print (error_line e)]" by (simp only: s_def)
  then show ?thesis using run by simp
qed (simp_all add: main_def)

text \<open>
  C14. ``Repository cloned.  Indexing files...'' is printed only after the repository has
  been indexed, right after the call to the indexer and before anything else: the
  message announces work that is already done.
\<close>

theorem main_index_message_order:
  assumes "Print ''Repository cloned. Indexing files...'' \<in> set (r_trace (main cfg w))"
  shows "\<exists>t u. r_trace (main cfg w) = t @ IndexRepo # Print ''Repository cloned. Indexing files...'' # u
    \<and> IndexRepo \<notin> set t"
  using assms
proof (cases rule: main_cases [of w])
  case (loop url rest files idx docs counts names key)
  define s0 where "s0 = \<lparr>ls_input = rest, ls_history = [],
      ls_trace = [Prompt url_prompt, Input url, Print ''Cloning the repository...'', TmpCreate,
                  CloneRepo url, IndexRepo, Print ''Repository cloned. Indexing files...''],
      ls_status = Running\<rparr>"
  have r0: "ls_status s0 = Running" by (simp add: s0_def)
  from qa_loop_pass [OF r0, where ctx = "make_context cfg url key idx docs counts names" and cfg = cfg and w = w]
  obtain new where "pass_ok (make_context cfg url key idx docs counts names) s0
      (qa_loop cfg w (make_context cfg url key idx docs counts names) s0) new" ..
  then have "ls_trace (qa_loop cfg w (make_context cfg url key idx docs counts names) s0) = ls_trace s0 @ new"
    by (simp add: pass_ok_def)
  then show ?thesis using main_loop_run [OF loop, of cfg]
    by (intro exI [of _ "[Prompt url_prompt, Input url, Print ''Cloning the repository...'', TmpCreate, CloneRepo url]"]
        exI [of _ "new @ [TmpRemove]"]) (simp add: s0_def Let_def)
next
  case (no_key url rest files idx docs counts names)
  then show ?thesis
    by (intro exI [of _ "[Prompt url_prompt, Input url, Print ''Cloning the repository...'', TmpCreate, CloneRepo url]"]
        exI [of _ "[TmpRemove]"]) (simp add: main_def)
qed (auto simp: main_def)

text \<open>
  C4. Every request to the model carries the question it answers: once the clone is
  indexed, the \<open>i\<close>-th request's prompt contains the \<open>i\<close>-th question asked and the
  numbered documents that retrieval returns for it from the index built at line 21.
\<close>

theorem main_requests_grounded:
  assumes "w_stdin w = url # rest" and "w_clone w url = Some files"
    and "load_and_index_files (w_index_cfg w) files = (Some idx, docs, counts, names)"
  shows "list_all2 (\<lambda>(q, h) (m, p). sublist q p
           \<and> sublist (format_documents (search_documents (w_retrieval w) q idx)) p)
         (asks (r_trace (main cfg w))) (requests (r_trace (main cfg w)))"
proof (cases "chat_openai_key (openai_api_key w)")
  case None
  then show ?thesis using assms by (simp add: main_def)
next
  case (Some key)
  define ctx where "ctx = make_context cfg url key idx docs counts names"
  define s0 where "s0 = \<lparr>ls_input = rest, ls_history = [],
      ls_trace = [Prompt url_prompt, Input url, Print ''Cloning the repository...'', TmpCreate,
                  CloneRepo url, IndexRepo, Print ''Repository cloned. Indexing files...''],
      ls_status = Running\<rparr>"
  obtain new where n: "ls_trace (qa_loop cfg w ctx s0) = ls_trace s0 @ new"
    and g: "list_all2 (\<lambda>(q, h) (m, p). sublist q p
          \<and> sublist (format_documents (search_documents (w_retrieval w) q (qc_index ctx))) p)
        (asks new) (requests new)"
    using qa_loop_grounded [where ctx = ctx and cfg = cfg and w = w and s = s0]
      make_context_chain(1) unfolding ctx_def by blast
  have "qc_index ctx = idx" by (simp add: ctx_def make_context_chain)
  then show ?thesis
    using main_loop_run [OF assms Some, of cfg] n g by (simp add: ctx_def s0_def Let_def)
qed

text \<open>
  \<open>main\<close> reads the environment and the \<open>.env\<close> file only through the key they give.
\<close>

lemma main_key_cong:
  assumes "openai_api_key w' = openai_api_key w"
    and "w_stdin w' = w_stdin w" and "w_clone w' = w_clone w" and "w_index_cfg w' = w_index_cfg w"
    and "w_retrieval w' = w_retrieval w" and "w_llm w' = w_llm w"
  shows "main cfg w' = main cfg w"
  unfolding main_def assms qa_loop_world_cong [OF assms(5,6)] ..

text \<open>
  C25. An exported \<open>OPENAI_API_KEY\<close> wins over the \<open>.env\<close> file: \<open>load_dotenv()\<close> does
  not override the environment, so whatever the file binds, the run is the one the
  environment alone gives.
\<close>

theorem main_environ_wins:
  assumes "w_environ w ''OPENAI_API_KEY'' = Some key"
  shows "main cfg (w\<lparr>w_dotenv := d\<rparr>) = main cfg w"
proof (rule main_key_cong)
  show "openai_api_key (w\<lparr>w_dotenv := d\<rparr>) = openai_api_key w"
    using assms by (simp add: openai_api_key_def load_dotenv_def)
qed simp_all

text \<open>
  C26. A key the environment lacks is taken from the last binding of the \<open>.env\<close> file:
  the run is the one with that value exported and no file at all.
\<close>

theorem main_dotenv_last_binding:
  assumes "w_environ w ''OPENAI_API_KEY'' = None"
  shows "main cfg (w\<lparr>w_dotenv := d @ [(''OPENAI_API_KEY'', Some k)]\<rparr>)
       = main cfg (w\<lparr>w_environ := (w_environ w)(''OPENAI_API_KEY'' \<mapsto> k), w_dotenv := []\<rparr>)"
proof (rule main_key_cong)
  show "openai_api_key (w\<lparr>w_dotenv := d @ [(''OPENAI_API_KEY'', Some k)]\<rparr>)
      = openai_api_key (w\<lparr>w_environ := (w_environ w)(''OPENAI_API_KEY'' \<mapsto> k), w_dotenv := []\<rparr>)"
    using assms by (simp add: openai_api_key_def load_dotenv_def dotenv_values_def map_add_def)
qed simp_all

text \<open>
  C29. \<open>ChatOpenAI\<close> refuses a key that is missing or empty: once the clone is indexed,
  such a key ends the program with the validation error at line 27, after the indexing
  message and the removal of the directory, and before any question is read.
\<close>

theorem main_key_refused:
  assumes "w_stdin w = url # rest" and "w_clone w url = Some files"
    and "load_and_index_files (w_index_cfg w) files = (Some idx, docs, counts, names)"
    and "openai_api_key w = None \<or> openai_api_key w = Some []"
  shows "r_outcome (main cfg w) = Crashed (ValueError ''Did not find openai_api_key'')
    \<and> r_trace (main cfg w) = [Prompt url_prompt, Input url, Print ''Cloning the repository...'', TmpCreate,
         CloneRepo url, IndexRepo, Print ''Repository cloned. Indexing files...'', TmpRemove]"
proof -
  have "chat_openai_key (openai_api_key w) = None"
    using assms(4) by (simp only: chat_openai_key_None_iff)
  then show ?thesis using assms(1-3) by (simp add: main_def)
qed

end
