(* ===== verification/Spec2Isabelle.thy ===== *)
theory Spec2Isabelle
  imports Session
begin

text \<open>
  RepoReader: a verification development.

  \<^bold>\<open>The program.\<close>  \<open>src/main.py\<close> is a question-answering session over a cloned
  repository.  \<open>main()\<close> reads a repository URL, takes the text after its last slash as
  the repository name (line 17), clones the repository into a temporary directory
  (\<open>clone_github_repo\<close>, line 20), indexes the clone (\<open>load_and_index_files\<close>, line 21),
  stops with \<open>SystemExit\<close> when nothing was indexed (lines 22 to 24), builds the model
  (\<open>ChatOpenAI\<close>, line 27), the prompt template (lines 29 to 57), the chain (line 59)
  and the \<open>QuestionContext\<close> with an empty conversation history (lines 60 and 61), and
  then loops (lines 62 to 74): read a line, leave on \<open>exit()\<close> in any letter case,
  normalise the question (\<open>format_user_question\<close>), ask (\<open>ask_question\<close>), print the
  answer and append it to the local \<open>conversation_history\<close>; any exception, the end of
  the input included, is printed and ends the loop.  Leaving the \<open>with\<close> block deletes
  the temporary directory.  The modules \<open>config\<close>, \<open>utils\<close>, \<open>file_processing\<close>
  and \<open>questions\<close> are not in \<open>src/\<close>; they are modelled from \<open>spec.md\<close>.

  \<^bold>\<open>The theories.\<close>
  \<^item> \<open>Prelude\<close>: the collection \<open>model_simps\<close> of the model's equations, the type names
    \<open>url\<close>, \<open>path\<close>, \<open>ext\<close>, Python's \<open>str.join\<close> (\<open>py_join\<close>), and shared facts on
    sums and sublists.
  \<^item> \<open>Py_String\<close>: the string built-ins the program applies: \<open>str.split\<close> with one
    separator character (\<open>py_split\<close>, line 17), \<open>str.lower\<close> on Latin-1
    (\<open>py_lower\<close>, line 65), \<open>str.isspace\<close>, \<open>re.sub(r'\s+', ' ', q).strip()\<close> as
    \<open>format_user_question\<close> (line 68, from \<open>utils\<close>), \<open>repr\<close> of strings, lists and
    dictionaries, \<open>str(n)\<close>, and the exceptions with their messages (\<open>exc\<close>).  Lemmas:
    the normal form of a normalised question (\<open>ws_normal\<close>, no whitespace at either
    end), idempotence, preservation of the other characters, and that \<open>format_user_question\<close> equals the reference \<open>" ".join(q.split())\<close>
    (\<open>py_words\<close> is \<open>str.split()\<close>; \<open>format_user_question_words\<close>).
  \<^item> \<open>Template\<close>: the format-string language of \<open>str.format\<close> as segments
    (\<open>seg\<close>), its reader \<open>parse_fmt\<close> and printer \<open>print_fmt\<close>, rendering
    \<open>render_segs\<close>, the template of lines 29 to 45 (\<open>template\<close>), its input variables
    (lines 49 to 56), and \<open>LLMChain.run\<close>'s check and rendering (\<open>format_prompt\<close>).
    Lemmas: reader and printer are inverse on well-formed segments, the template's
    fields are exactly its six input variables (\<open>parse_template_segs\<close>), the prompt
    always renders when they are
    given, every value given for a field (the question in particular) occurs in it, and
    the prompt's length lies between the values' total and the template's length plus it.
  \<^item> \<open>Indexer\<close>: \<open>load_and_index_files\<close> from section 4.2 of the specification: a
    walk over the clone's files (\<open>index_file\<close>) keeping the accepted, decodable ones and
    counting their extensions in an insertion-ordered dictionary (\<open>bump_count\<close>).
    Lemmas: the walk equals a filter (\<open>load_and_index_files_eq\<close>), the counts add up to
    the number of documents and give each extension's number, and there is no index
    exactly when no file qualifies.
  \<^item> \<open>Questions\<close>: \<open>ask_question\<close> from section 4.3: top-\<open>K\<close> retrieval
    (\<open>top_k\<close>, a stable sort by a similarity that is a parameter), the numbered
    document block (\<open>format_documents\<close>), the keyword arguments and the rendered prompt
    (\<open>question_prompt\<close>), and the model call.  Lemmas: \<open>K\<close> documents or all of them,
    a sub-multiset of the index, the most similar first and none left out more similar;
    the rendered prompt contains the question and the numbered documents.
  \<^item> \<open>Loop\<close>: the \<open>while True\<close> loop of lines 62 to 74.  The world of a run
    (\<open>world\<close>: standard input, the process environment and the bindings of the
    \<open>.env\<close> file, what cloning yields, the filters, the retrieval and the model), the
    key that \<open>load_dotenv()\<close> and \<open>os.getenv\<close> give at lines 11 and 12
    (\<open>openai_api_key\<close>, through \<open>load_dotenv\<close> and \<open>dotenv_values\<close>), the
    trace of observable events (\<open>event\<close>), one pass of the loop (\<open>iteration\<close>), the loop (\<open>qa_loop\<close>, a \<open>function\<close> whose measure is the
    number of unread lines plus one while it runs), the passes as a step relation
    (\<open>loop_reach\<close>), and the loop's contract after section 4.4 of the specification
    (\<open>spec_step\<close>, with the exact sentinel \<open>exit()\<close>, run by \<open>while_option\<close> as
    \<open>spec_run\<close>, and the coupling \<open>loop_couple\<close> of a loop state with an abstract
    session, the local history included).  Lemmas: what a pass adds (\<open>pass_ok\<close>, by
    cases on the branch), lifted to every reachable state by rule induction; a pass
    preserves the coupling (\<open>iteration_couple\<close>), from which the loop refines its
    contract by induction on the measure; the loop equals \<open>while_option\<close> over a pass
    (\<open>qa_loop_simulation\<close>); the loop's result when every answer succeeds
    (\<open>qa_loop_answers\<close>); every question followed by one request whose prompt holds
    it and its retrieved documents (\<open>qa_loop_grounded\<close>); the exit test's sixteen
    spellings; the history and the trace only grow along a run; the loop reads the world
    only through the retriever and the model (\<open>qa_loop_world_cong\<close>).
  \<^item> \<open>Session\<close>: \<open>main()\<close> itself with the key check of \<open>ChatOpenAI\<close> at line 27
    (\<open>chat_openai_key\<close>: a missing or empty key is refused), its five branches (\<open>main_cases\<close>), the facts every
    run satisfies (\<open>run_ok\<close>, from the loop's \<open>pass_ok\<close>), the properties of runs, and
    that a run depends on the environment and the \<open>.env\<close> file only through the key
    (\<open>main_key_cong\<close>).
  \<^item> This theory: the scenario of section 8 of the specification, run through the model.

  \<^bold>\<open>No bounds or fuel\<close> are needed: the loop consumes one input line per pass or stops,
  so it returns on every finite input after at most one pass per line plus one (C18);
  Python's integers never overflow here, so counts are \<open>nat\<close>.

  \<^bold>\<open>What the properties show\<close> (claims C1 to C29): the context passed to the answerer
  always carries an empty history (C1); when everything succeeds and the key is set and
  not empty, the session asks exactly the normalised lines before the first exit command
  and answers each (C2); the loop refines the read-evaluate-print contract of section
  4.4, history included, on input where only the exact sentinel exits (C3); the
  \<open>i\<close>-th model request carries the \<open>i\<close>-th question and its retrieved documents (C4);
  the local history holds one entry per answered question in order (C5); \<open>exit()\<close> is
  recognised in all sixteen letter cases (C6); questions reach the answerer normalised
  (C7); a failed clone (C8) and an empty index (C9) end the run before any question; the
  program crashes only on end of input at the URL prompt or a missing or empty key, after
  removing the directory (C10); a caught exception is printed last (C11); the temporary
  directory is removed on every path (C12); the index is built once, before any question
  (C13), and the ``Indexing files...'' message follows it (C14); an answerer exception
  ends the session (C15); every model request names \<open>gpt-3.5-turbo\<close> (C16); at most
  one question per input line (C17); the loop stops within a bounded number of passes
  (C18); the repository name is the text after the last slash (C19); the prompt ignores
  the history (C20) and contains the question (C21); with the context built by
  \<open>main\<close> the prompt always renders and carries the question and the numbered
  top-\<open>K\<close> documents (C22, C23); the context carries the indexer's documents and
  counts (C24); an exported key wins over the \<open>.env\<close> file (C25) and otherwise the
  file's last binding is used (C26); the history and the trace are append-only (C27);
  the prompt's length is bounded by the template and the values (C28); a missing or
  empty key ends the program at line 27 before any question (C29).  The format
  reader and printer of \<open>Template\<close> are proved inverse (\<open>parse_print_fmt\<close>,
  \<open>print_parse_fmt\<close>) as library lemmas.

  \<^bold>\<open>The scenario\<close> (this theory): \<open>demo_world\<close> gives the URL, one question and
  \<open>exit()\<close> on standard input, a clone holding \<open>readme.md\<close> with \<open>Hello world\<close>, and a
  model that always answers; \<open>demo_run\<close> runs \<open>main\<close> on it pass by pass
  (\<open>qa_loop_running\<close>, \<open>qa_loop_stopped\<close>) and the witnesses of the claims are drawn
  from that run and from variants of the world (a failing clone, a filter that rejects
  the readme, an empty key, an input that ends before \<open>exit()\<close>).

  \<^bold>\<open>Not modelled.\<close>  The network clone itself and the filesystem (the cloner is the
  world's \<open>w_clone\<close>); the embedding library's similarity (a parameter); the hosted
  model (the world's \<open>w_llm\<close>); terminal colours (parameters of \<open>app_config\<close>); the
  discovery of the \<open>.env\<close> file and its \<open>${...}\<close> interpolation (the world's
  \<open>w_dotenv\<close> holds its parsed bindings); characters beyond Latin-1;
  \<open>KeyboardInterrupt\<close> and other exceptions outside \<open>Exception\<close>; the module-level
  imports of lines 1 to 10, which only bind names.  The exact text of the validation error
  that \<open>ChatOpenAI\<close> raises without a key belongs to the library; the claims about that
  crash do not depend on it.  Whether the hosted service accepts a non-empty key is the
  world's model (\<open>w_llm\<close>), not the program's.
\<close>

subsection \<open>The scenario of the specification\<close>

definition demo_question :: string where
  "demo_question = ''What does this repo contain?''"

definition demo_answer :: string where
  "demo_answer = ''It contains a readme that says Hello world.''"

definition demo_doc :: document where
  "demo_doc = \<lparr>doc_source = ''readme.md'', doc_content = ''Hello world''\<rparr>"

definition demo_config :: app_config where
  "demo_config = \<lparr>cfg_white = [], cfg_green = [], cfg_reset = [], cfg_model_name = ''gpt-4''\<rparr>"

definition demo_world :: world where
  "demo_world =
     \<lparr>w_stdin = [''https://github.com/alice/hello'', demo_question, ''exit()''],
      w_environ = Map.empty,
      w_dotenv = [(''OPENAI_API_KEY'', Some ''sk-test'')],
      w_clone = (\<lambda>u. Some [\<lparr>fe_path = ''readme.md'', fe_size = 11, fe_text = Some ''Hello world''\<rparr>]),
      w_index_cfg = \<lparr>allowed_exts = [''md''], max_size = 1000\<rparr>,
      w_retrieval = \<lparr>rt_k = 5, rt_similarity = (\<lambda>q d. 0)\<rparr>,
      w_llm = (\<lambda>m p. Inr demo_answer)\<rparr>"

definition demo_ctx :: question_context where
  "demo_ctx = make_context demo_config ''https://github.com/alice/hello'' ''sk-test''
     (Index [demo_doc]) [demo_doc] [(''md'', 1)] [''readme.md'']"

text \<open>The events of the scenario's run, \<open>p\<close> the rendered prompt.\<close>

definition demo_loop_start :: loop_state where
  "demo_loop_start = \<lparr>ls_input = [demo_question, ''exit()''], ls_history = [], ls_trace = [], ls_status = Running\<rparr>"

definition demo_spec_start :: spec_state where
  "demo_spec_start = \<lparr>sp_input = [demo_question, ''exit()''], sp_pairs = [], sp_status = Running\<rparr>"

definition demo_trace :: "string \<Rightarrow> event list" where
  "demo_trace p =
     [Prompt url_prompt, Input ''https://github.com/alice/hello'', Print ''Cloning the repository...'',
      TmpCreate, CloneRepo ''https://github.com/alice/hello'', IndexRepo,
      Print ''Repository cloned. Indexing files...'',
      Prompt (loop_prompt demo_config), Input demo_question, Print ''Thinking...'',
      Ask demo_question [], LlmRequest ''gpt-3.5-turbo'' p, Reply demo_question demo_answer,
      Print (''\<newline>ANSWER\<newline>'' @ demo_answer @ ''\<newline>''),
      Prompt (loop_prompt demo_config), Input ''exit()'', TmpRemove]"

lemma demo_load:
  "load_and_index_files (w_index_cfg demo_world) [\<lparr>fe_path = ''readme.md'', fe_size = 11, fe_text = Some ''Hello world''\<rparr>]
   = (Some (Index [demo_doc]), [demo_doc], [(''md'', 1)], [''readme.md''])"
  by (simp add: model_simps demo_world_def demo_doc_def)

lemma demo_key: "openai_api_key demo_world = Some ''sk-test''"
  by (simp add: openai_api_key_def load_dotenv_def dotenv_values_def demo_world_def)

lemma demo_empty_key: "openai_api_key (demo_world\<lparr>w_dotenv := [(''OPENAI_API_KEY'', Some [])]\<rparr>) = Some []"
  by (simp add: openai_api_key_def load_dotenv_def dotenv_values_def demo_world_def)

lemma demo_fq: "format_user_question demo_question = demo_question"
  by code_simp

lemma demo_exit: "\<not> is_exit_command demo_question" "is_exit_command ''exit()''"
  by code_simp+

lemma demo_docs_block:
  "format_documents (search_documents (w_retrieval demo_world) q (Index [demo_doc])) = ''1. readme.md: '' @ ''Hello world''"
proof -
  have "nat_to_str 1 = ''1''" by code_simp
  then show ?thesis by (simp add: model_simps demo_world_def demo_doc_def)
qed

lemma demo_run:
  obtains p where "question_prompt (w_retrieval demo_world) demo_question demo_ctx = Inr p"
    and "main demo_config demo_world =
      \<lparr>r_trace = demo_trace p, r_outcome = Finished,
       r_history = history_entry demo_question demo_answer, r_stop = Some Exit_command\<rparr>"
proof -
  obtain p where p: "question_prompt (w_retrieval demo_world) demo_question demo_ctx = Inr p"
    using question_prompt_ok [of demo_ctx] by (auto simp: demo_ctx_def make_context_def)
  have ctx: "qc_conversation_history demo_ctx = []"
    "llm_model (lc_llm (qc_llm_chain demo_ctx)) = ''gpt-3.5-turbo''"
    by (simp_all add: demo_ctx_def make_context_def make_llm_def)
  have ask: "ask_question (w_retrieval demo_world) (w_llm demo_world) demo_question demo_ctx = Inr demo_answer"
    using p by (simp add: ask_question_def demo_world_def)
  have ev: "ask_events demo_world demo_ctx demo_question =
      [Ask demo_question [], LlmRequest ''gpt-3.5-turbo'' p]"
    using p ctx by (simp add: ask_events_def)
  let ?t1 = "[Prompt url_prompt, Input ''https://github.com/alice/hello'', Print ''Cloning the repository...'', TmpCreate,
                  CloneRepo ''https://github.com/alice/hello'', IndexRepo, Print ''Repository cloned. Indexing files...'']"
  let ?s0 = "\<lparr>ls_input = [demo_question, ''exit()''], ls_history = [], ls_trace = ?t1, ls_status = Running\<rparr>"
  have it1: "iteration demo_config demo_world demo_ctx ?s0 =
      ?s0\<lparr>ls_input := [''exit()''],
          ls_trace := ?t1 @ [Prompt (loop_prompt demo_config), Input demo_question, Print ''Thinking...'',
                  Ask demo_question [], LlmRequest ''gpt-3.5-turbo'' p, Reply demo_question demo_answer,
                  Print (''\<newline>ANSWER\<newline>'' @ demo_answer @ ''\<newline>'')],
          ls_history := history_entry demo_question demo_answer\<rparr>"
    using demo_exit(1) demo_fq ask ev by (simp add: iteration_def demo_config_def)
  have main: "main demo_config demo_world =
    (let s = qa_loop demo_config demo_world demo_ctx ?s0
     in \<lparr>r_trace = ls_trace s @ [TmpRemove], r_outcome = Finished, r_history = ls_history s,
           r_stop = (case ls_status s of Stopped r \<Rightarrow> Some r | Running \<Rightarrow> None)\<rparr>)"
    using main_loop_run [of demo_world _ _ _ "Index [demo_doc]" "[demo_doc]" "[(''md'', 1)]" "[''readme.md'']"
        "''sk-test''" demo_config] demo_load demo_key
    by (simp add: demo_world_def demo_ctx_def)
  let ?s1 = "iteration demo_config demo_world demo_ctx ?s0"
  have l1: "qa_loop demo_config demo_world demo_ctx ?s0 = qa_loop demo_config demo_world demo_ctx ?s1"
    by (rule qa_loop_running) simp
  have it2: "iteration demo_config demo_world demo_ctx ?s1 =
      ?s1\<lparr>ls_input := [], ls_trace := ls_trace ?s1 @ [Prompt (loop_prompt demo_config), Input ''exit()''],
          ls_status := Stopped Exit_command\<rparr>"
    using demo_exit(2) it1 by (simp add: iteration_def)
  have l2: "qa_loop demo_config demo_world demo_ctx ?s1 = iteration demo_config demo_world demo_ctx ?s1"
    using it1 it2 by (simp add: qa_loop_running qa_loop_stopped)
  show ?thesis
    using that [OF p] main l1 l2 it1 it2 by (simp add: Let_def demo_trace_def)
qed

subsection \<open>The properties at work on concrete runs\<close>

lemma demo_main:
  obtains p where "main demo_config demo_world =
      \<lparr>r_trace = demo_trace p, r_outcome = Finished,
       r_history = history_entry demo_question demo_answer, r_stop = Some Exit_command\<rparr>"
  using demo_run by blast

theorem main_context_history_empty_witness:
  "(demo_question, []) \<in> set (asks (r_trace (main demo_config demo_world))) \<and> ([] :: string) = []"
proof -
  obtain p where run: "main demo_config demo_world =
      \<lparr>r_trace = demo_trace p, r_outcome = Finished,
       r_history = history_entry demo_question demo_answer, r_stop = Some Exit_command\<rparr>"
    by (rule demo_main)
  have h: "(demo_question, []) \<in> set (asks (r_trace (main demo_config demo_world)))"
    by (simp add: run demo_trace_def)
  show ?thesis using conjI [OF h main_context_history_empty [OF h]] .
qed

theorem main_questions_normal_witness:
  "(demo_question, []) \<in> set (asks (r_trace (main demo_config demo_world)))
   \<and> py_strip demo_question = demo_question \<and> ws_normal demo_question"
proof -
  obtain p where run: "main demo_config demo_world =
      \<lparr>r_trace = demo_trace p, r_outcome = Finished,
       r_history = history_entry demo_question demo_answer, r_stop = Some Exit_command\<rparr>"
    by (rule demo_main)
  have h: "(demo_question, []) \<in> set (asks (r_trace (main demo_config demo_world)))"
    by (simp add: run demo_trace_def)
  show ?thesis using conjI [OF h main_questions_normal [OF h]] .
qed

theorem main_llm_model_witness:
  "\<exists>m p. (m, p) \<in> set (requests (r_trace (main demo_config demo_world))) \<and> m = ''gpt-3.5-turbo''"
proof -
  obtain p where run: "main demo_config demo_world =
      \<lparr>r_trace = demo_trace p, r_outcome = Finished,
       r_history = history_entry demo_question demo_answer, r_stop = Some Exit_command\<rparr>"
    by (rule demo_main)
  have h: "(''gpt-3.5-turbo'', p) \<in> set (requests (r_trace (main demo_config demo_world)))"
    by (simp add: run demo_trace_def)
  show ?thesis using h main_llm_model [OF h] by blast
qed

theorem main_tmp_cleanup_witness:
  "TmpCreate \<in> set (r_trace (main demo_config demo_world))
   \<and> last (r_trace (main demo_config demo_world)) = TmpRemove
   \<and> count_list (r_trace (main demo_config demo_world)) TmpRemove = 1"
proof -
  obtain p where run: "main demo_config demo_world =
      \<lparr>r_trace = demo_trace p, r_outcome = Finished,
       r_history = history_entry demo_question demo_answer, r_stop = Some Exit_command\<rparr>"
    by (rule demo_main)
  have h: "TmpCreate \<in> set (r_trace (main demo_config demo_world))"
    and c: "count_list (r_trace (main demo_config demo_world)) TmpCreate = 1"
    by (simp_all add: run demo_trace_def)
  show ?thesis using h c main_tmp_cleanup [of demo_config demo_world] by simp
qed

theorem main_clone_failure_witness:
  "w_stdin (demo_world\<lparr>w_clone := \<lambda>u. None\<rparr>) = ''https://github.com/alice/hello'' # [demo_question, ''exit()'']
   \<and> w_clone (demo_world\<lparr>w_clone := \<lambda>u. None\<rparr>) ''https://github.com/alice/hello'' = None
   \<and> r_outcome (main demo_config (demo_world\<lparr>w_clone := \<lambda>u. None\<rparr>)) = Finished"
proof -
  have h1: "w_stdin (demo_world\<lparr>w_clone := \<lambda>u. None\<rparr>) = ''https://github.com/alice/hello'' # [demo_question, ''exit()'']"
    and h2: "w_clone (demo_world\<lparr>w_clone := \<lambda>u. None\<rparr>) ''https://github.com/alice/hello'' = None"
    by (simp_all add: demo_world_def)
  show ?thesis using h1 h2 main_clone_failure [OF h1 h2, of demo_config] by simp
qed

theorem main_no_documents_witness:
  "w_stdin (demo_world\<lparr>w_index_cfg := \<lparr>allowed_exts = [''py''], max_size = 1000\<rparr>\<rparr>)
     = ''https://github.com/alice/hello'' # [demo_question, ''exit()'']
   \<and> w_clone (demo_world\<lparr>w_index_cfg := \<lparr>allowed_exts = [''py''], max_size = 1000\<rparr>\<rparr>)
       ''https://github.com/alice/hello''
     = Some [\<lparr>fe_path = ''readme.md'', fe_size = 11, fe_text = Some ''Hello world''\<rparr>]
   \<and> \<not> indexable (w_index_cfg (demo_world\<lparr>w_index_cfg := \<lparr>allowed_exts = [''py''], max_size = 1000\<rparr>\<rparr>))
       \<lparr>fe_path = ''readme.md'', fe_size = 11, fe_text = Some ''Hello world''\<rparr>
   \<and> r_outcome (main demo_config (demo_world\<lparr>w_index_cfg := \<lparr>allowed_exts = [''py''], max_size = 1000\<rparr>\<rparr>))
     = Sys_exit"
proof -
  have h1: "w_stdin (demo_world\<lparr>w_index_cfg := \<lparr>allowed_exts = [''py''], max_size = 1000\<rparr>\<rparr>)
     = ''https://github.com/alice/hello'' # [demo_question, ''exit()'']"
    and h2: "w_clone (demo_world\<lparr>w_index_cfg := \<lparr>allowed_exts = [''py''], max_size = 1000\<rparr>\<rparr>)
       ''https://github.com/alice/hello''
     = Some [\<lparr>fe_path = ''readme.md'', fe_size = 11, fe_text = Some ''Hello world''\<rparr>]"
    by (simp_all add: demo_world_def)
  have h3: "\<forall>f \<in> set [\<lparr>fe_path = ''readme.md'', fe_size = 11, fe_text = Some ''Hello world''\<rparr>].
        \<not> indexable (w_index_cfg (demo_world\<lparr>w_index_cfg := \<lparr>allowed_exts = [''py''], max_size = 1000\<rparr>\<rparr>)) f"
    by code_simp
  show ?thesis using h1 h2 h3 main_no_documents [OF h1 h2 h3, of demo_config] by simp
qed

theorem context_prompt_top_k_witness:
  "\<exists>p. question_prompt (w_retrieval demo_world) demo_question
          (make_context demo_config ''https://github.com/alice/hello'' ''sk-test'' (Index [demo_doc])
             [demo_doc] [(''md'', 1)] [''readme.md'']) = Inr p
     \<and> sublist (doc_entry 1 demo_doc) p"
proof -
  obtain p where h: "question_prompt (w_retrieval demo_world) demo_question
          (make_context demo_config ''https://github.com/alice/hello'' ''sk-test'' (Index [demo_doc])
             [demo_doc] [(''md'', 1)] [''readme.md'']) = Inr p"
    using demo_run unfolding demo_ctx_def by blast
  have "0 < min (rt_k (w_retrieval demo_world)) (length [demo_doc])"
    and "top_k (rt_similarity (w_retrieval demo_world) demo_question) (rt_k (w_retrieval demo_world)) [demo_doc] ! 0
         = demo_doc"
    by (simp_all add: demo_world_def top_k_def)
  then show ?thesis using h context_prompt_top_k [OF h] by fastforce
qed

theorem main_answers_until_exit_witness:
  "w_stdin demo_world = ''https://github.com/alice/hello'' # [demo_question, ''exit()'']
   \<and> w_clone demo_world ''https://github.com/alice/hello''
       = Some [\<lparr>fe_path = ''readme.md'', fe_size = 11, fe_text = Some ''Hello world''\<rparr>]
   \<and> (\<exists>f \<in> set [\<lparr>fe_path = ''readme.md'', fe_size = 11, fe_text = Some ''Hello world''\<rparr>].
        indexable (w_index_cfg demo_world) f)
   \<and> openai_api_key demo_world = Some ''sk-test'' \<and> ''sk-test'' \<noteq> []
   \<and> (\<forall>m p. \<exists>a. w_llm demo_world m p = Inr a)
   \<and> map fst (replies (r_trace (main demo_config demo_world))) = [demo_question]
   \<and> r_stop (main demo_config demo_world) = Some Exit_command"
proof -
  have h1: "w_stdin demo_world = ''https://github.com/alice/hello'' # [demo_question, ''exit()'']"
    and h2: "w_clone demo_world ''https://github.com/alice/hello''
       = Some [\<lparr>fe_path = ''readme.md'', fe_size = 11, fe_text = Some ''Hello world''\<rparr>]"
    and h5: "\<forall>m p. \<exists>a. w_llm demo_world m p = Inr a"
    by (simp_all add: demo_world_def)
  have h3: "\<exists>f \<in> set [\<lparr>fe_path = ''readme.md'', fe_size = 11, fe_text = Some ''Hello world''\<rparr>].
        indexable (w_index_cfg demo_world) f"
    by (simp add: model_simps indexable_def demo_world_def)
  note h4 = demo_key
  have h6: "''sk-test'' \<noteq> []" by simp
  show ?thesis
    using h1 h2 h3 h4 h5 h6 main_answers_until_exit [OF h1 h2 h3 h4 h6 h5, of demo_config] demo_exit demo_fq
    by simp
qed

theorem context_counts_witness:
  "load_and_index_files (w_index_cfg demo_world)
      [\<lparr>fe_path = ''readme.md'', fe_size = 11, fe_text = Some ''Hello world''\<rparr>]
     = (Some (Index [demo_doc]), [demo_doc], [(''md'', 1)], [''readme.md''])
   \<and> qc_documents demo_ctx = [demo_doc]
   \<and> sum_list (map snd (qc_file_type_counts demo_ctx)) = length (qc_documents demo_ctx)"
proof -
  have "sum_list (map snd (qc_file_type_counts demo_ctx)) = length (qc_documents demo_ctx)"
    using context_counts [OF demo_load, of demo_config "''https://github.com/alice/hello''" "''sk-test''"]
    unfolding demo_ctx_def by blast
  moreover have "qc_documents demo_ctx = [demo_doc]" by (simp add: demo_ctx_def make_context_def)
  ultimately show ?thesis using demo_load by blast
qed

theorem main_crash_cases_witness:
  "r_outcome (main demo_config (demo_world\<lparr>w_dotenv := [(''OPENAI_API_KEY'', Some [])]\<rparr>)) = Crashed (ValueError ''Did not find openai_api_key'')
   \<and> IndexRepo \<in> set (r_trace (main demo_config (demo_world\<lparr>w_dotenv := [(''OPENAI_API_KEY'', Some [])]\<rparr>)))
   \<and> asks (r_trace (main demo_config (demo_world\<lparr>w_dotenv := [(''OPENAI_API_KEY'', Some [])]\<rparr>))) = []"
proof -
  have ld: "load_and_index_files (w_index_cfg (demo_world\<lparr>w_dotenv := [(''OPENAI_API_KEY'', Some [])]\<rparr>))
      [\<lparr>fe_path = ''readme.md'', fe_size = 11, fe_text = Some ''Hello world''\<rparr>]
      = (Some (Index [demo_doc]), [demo_doc], [(''md'', 1)], [''readme.md''])"
    using demo_load by simp
  have h: "r_outcome (main demo_config (demo_world\<lparr>w_dotenv := [(''OPENAI_API_KEY'', Some [])]\<rparr>)) = Crashed (ValueError ''Did not find openai_api_key'')"
    using ld demo_empty_key by (simp add: main_def demo_world_def)
  show ?thesis using h main_crash_cases [OF h] by (simp add: demo_world_def)
qed

theorem main_error_reported_witness:
  "r_stop (main demo_config (demo_world\<lparr>w_stdin := [''https://github.com/alice/hello'', demo_question]\<rparr>))
     = Some (Input_error EOFError)
   \<and> (\<exists>t. r_trace (main demo_config (demo_world\<lparr>w_stdin := [''https://github.com/alice/hello'', demo_question]\<rparr>))
          = t @ [Print (error_line EOFError), TmpRemove])"
proof -
  let ?w = "demo_world\<lparr>w_stdin := [''https://github.com/alice/hello'', demo_question]\<rparr>"
  let ?s0 = "\<lparr>ls_input = [demo_question], ls_history = [],
      ls_trace = [Prompt url_prompt, Input ''https://github.com/alice/hello'', Print ''Cloning the repository...'',
                  TmpCreate, CloneRepo ''https://github.com/alice/hello'', IndexRepo,
                  Print ''Repository cloned. Indexing files...''],
      ls_status = Running\<rparr>"
  have ld: "load_and_index_files (w_index_cfg ?w)
      [\<lparr>fe_path = ''readme.md'', fe_size = 11, fe_text = Some ''Hello world''\<rparr>]
      = (Some (Index [demo_doc]), [demo_doc], [(''md'', 1)], [''readme.md''])"
    using demo_load by simp
  have key: "chat_openai_key (openai_api_key ?w) = Some ''sk-test''" using demo_key by simp
  have run: "main demo_config ?w =
    (let s = qa_loop demo_config ?w demo_ctx ?s0
     in \<lparr>r_trace = ls_trace s @ [TmpRemove], r_outcome = Finished, r_history = ls_history s,
           r_stop = (case ls_status s of Stopped r \<Rightarrow> Some r | Running \<Rightarrow> None)\<rparr>)"
    using main_loop_run [of ?w _ _ _ "Index [demo_doc]" "[demo_doc]" "[(''md'', 1)]" "[''readme.md'']"
        "''sk-test''" demo_config] ld key
    by (simp add: demo_world_def demo_ctx_def)
  have p1: "lc_prompt (qc_llm_chain demo_ctx) = prompt" by (simp add: demo_ctx_def make_context_def)
  have p2: "\<forall>m p. \<exists>a. w_llm ?w m p = Inr a" by (simp add: demo_world_def)
  have r: "ls_status ?s0 = Running" "ls_input ?s0 = [demo_question]" by simp_all
  have "ls_status (qa_loop demo_config ?w demo_ctx ?s0) =
      Stopped (if list_ex is_exit_command [demo_question] then Exit_command else Input_error EOFError)"
    using qa_loop_answers [OF p1 p2 r] by blast
  then have "ls_status (qa_loop demo_config ?w demo_ctx ?s0) = Stopped (Input_error EOFError)"
    using demo_exit(1) by simp
  then have h: "r_stop (main demo_config ?w) = Some (Input_error EOFError)" using run by (simp add: Let_def)
  show ?thesis using h main_error_reported [OF disjI2 [OF h]] by blast
qed

theorem main_index_message_order_witness:
  "Print ''Repository cloned. Indexing files...'' \<in> set (r_trace (main demo_config demo_world))
   \<and> (\<exists>t u. r_trace (main demo_config demo_world)
          = t @ IndexRepo # Print ''Repository cloned. Indexing files...'' # u \<and> IndexRepo \<notin> set t)"
proof -
  obtain p where run: "main demo_config demo_world =
      \<lparr>r_trace = demo_trace p, r_outcome = Finished,
       r_history = history_entry demo_question demo_answer, r_stop = Some Exit_command\<rparr>"
    by (rule demo_main)
  have h: "Print ''Repository cloned. Indexing files...'' \<in> set (r_trace (main demo_config demo_world))"
    by (simp add: run demo_trace_def)
  show ?thesis using conjI [OF h main_index_message_order [OF h]] .
qed

theorem main_requests_grounded_witness:
  "w_stdin demo_world = ''https://github.com/alice/hello'' # [demo_question, ''exit()'']
   \<and> w_clone demo_world ''https://github.com/alice/hello''
       = Some [\<lparr>fe_path = ''readme.md'', fe_size = 11, fe_text = Some ''Hello world''\<rparr>]
   \<and> length (requests (r_trace (main demo_config demo_world))) = 1
   \<and> list_all2 (\<lambda>(q, h) (m, p). sublist q p
        \<and> sublist (format_documents (search_documents (w_retrieval demo_world) q (Index [demo_doc]))) p)
       (asks (r_trace (main demo_config demo_world))) (requests (r_trace (main demo_config demo_world)))"
proof -
  have h1: "w_stdin demo_world = ''https://github.com/alice/hello'' # [demo_question, ''exit()'']"
    and h2: "w_clone demo_world ''https://github.com/alice/hello''
       = Some [\<lparr>fe_path = ''readme.md'', fe_size = 11, fe_text = Some ''Hello world''\<rparr>]"
    by (simp_all add: demo_world_def)
  obtain p where run: "main demo_config demo_world =
      \<lparr>r_trace = demo_trace p, r_outcome = Finished,
       r_history = history_entry demo_question demo_answer, r_stop = Some Exit_command\<rparr>"
    by (rule demo_main)
  have "length (requests (r_trace (main demo_config demo_world))) = 1"
    by (simp add: run demo_trace_def)
  then show ?thesis using h1 h2 main_requests_grounded [OF h1 h2 demo_load, of demo_config] by simp
qed

theorem main_environ_wins_witness:
  "w_environ (demo_world\<lparr>w_environ := [''OPENAI_API_KEY'' \<mapsto> ''sk-env'']\<rparr>) ''OPENAI_API_KEY'' = Some ''sk-env''
   \<and> main demo_config (demo_world\<lparr>w_environ := [''OPENAI_API_KEY'' \<mapsto> ''sk-env''],
                                 w_dotenv := [(''OPENAI_API_KEY'', Some ''sk-file'')]\<rparr>)
     = main demo_config (demo_world\<lparr>w_environ := [''OPENAI_API_KEY'' \<mapsto> ''sk-env'']\<rparr>)"
  using main_environ_wins [where w = "demo_world\<lparr>w_environ := [''OPENAI_API_KEY'' \<mapsto> ''sk-env'']\<rparr>"
      and key = "''sk-env''" and cfg = demo_config and d = "[(''OPENAI_API_KEY'', Some ''sk-file'')]"]
  by simp

theorem main_dotenv_last_binding_witness:
  "w_environ (demo_world\<lparr>w_dotenv := []\<rparr>) ''OPENAI_API_KEY'' = None
   \<and> main demo_config (demo_world\<lparr>w_dotenv := [(''OPENAI_API_KEY'', Some ''sk-old''), (''OPENAI_API_KEY'', Some ''sk-test'')]\<rparr>)
     = main demo_config (demo_world\<lparr>w_environ := [''OPENAI_API_KEY'' \<mapsto> ''sk-test''], w_dotenv := []\<rparr>)"
proof -
  have env: "w_environ demo_world = Map.empty" by (simp add: demo_world_def)
  then have e: "w_environ (demo_world\<lparr>w_dotenv := []\<rparr>) ''OPENAI_API_KEY'' = None" by simp
  show ?thesis
    using e main_dotenv_last_binding [OF e, where cfg = demo_config and d = "[(''OPENAI_API_KEY'', Some ''sk-old'')]"
        and k = "''sk-test''"] env
    by simp
qed

theorem loop_reach_append_only_witness:
  "loop_reach demo_config demo_world demo_ctx demo_loop_start (iteration demo_config demo_world demo_ctx demo_loop_start)
   \<and> prefix (ls_history demo_loop_start) (ls_history (iteration demo_config demo_world demo_ctx demo_loop_start))
   \<and> prefix (ls_trace demo_loop_start) (ls_trace (iteration demo_config demo_world demo_ctx demo_loop_start))"
proof -
  have r: "loop_reach demo_config demo_world demo_ctx demo_loop_start (iteration demo_config demo_world demo_ctx demo_loop_start)"
    by (rule loop_reach.step [OF loop_reach.start]) (simp add: demo_loop_start_def)
  show ?thesis using r Loop.loop_reach_append_only [OF r] by blast
qed

theorem qa_loop_refines_witness:
  "loop_couple demo_loop_start demo_spec_start \<and> exact_exits (ls_input demo_loop_start)
   \<and> (\<exists>a'. spec_run (\<lambda>q. ask_question (w_retrieval demo_world) (w_llm demo_world) q demo_ctx) demo_spec_start
            = Some a' \<and> loop_couple (qa_loop demo_config demo_world demo_ctx demo_loop_start) a')"
proof -
  have h1: "loop_couple demo_loop_start demo_spec_start"
    by (simp add: loop_couple_def demo_loop_start_def demo_spec_start_def)
  have h2: "exact_exits (ls_input demo_loop_start)"
    using demo_exit(1) by (simp add: exact_exits_def demo_loop_start_def)
  show ?thesis using h1 h2 Loop.qa_loop_refines [OF h1 h2] by blast
qed

theorem main_key_refused_witness:
  "w_stdin (demo_world\<lparr>w_dotenv := [(''OPENAI_API_KEY'', Some [])]\<rparr>) = ''https://github.com/alice/hello'' # [demo_question, ''exit()'']
   \<and> (openai_api_key (demo_world\<lparr>w_dotenv := [(''OPENAI_API_KEY'', Some [])]\<rparr>) = None
      \<or> openai_api_key (demo_world\<lparr>w_dotenv := [(''OPENAI_API_KEY'', Some [])]\<rparr>) = Some [])
   \<and> r_outcome (main demo_config (demo_world\<lparr>w_dotenv := [(''OPENAI_API_KEY'', Some [])]\<rparr>))
       = Crashed (ValueError ''Did not find openai_api_key'')"
proof -
  let ?w = "demo_world\<lparr>w_dotenv := [(''OPENAI_API_KEY'', Some [])]\<rparr>"
  have h1: "w_stdin ?w = ''https://github.com/alice/hello'' # [demo_question, ''exit()'']"
    by (simp add: demo_world_def)
  have h2: "w_clone ?w ''https://github.com/alice/hello''
      = Some [\<lparr>fe_path = ''readme.md'', fe_size = 11, fe_text = Some ''Hello world''\<rparr>]"
    by (simp add: demo_world_def)
  have h3: "load_and_index_files (w_index_cfg ?w)
      [\<lparr>fe_path = ''readme.md'', fe_size = 11, fe_text = Some ''Hello world''\<rparr>]
      = (Some (Index [demo_doc]), [demo_doc], [(''md'', 1)], [''readme.md''])"
    using demo_load by simp
  have h4: "openai_api_key ?w = None \<or> openai_api_key ?w = Some []" using demo_empty_key by simp
  show ?thesis using h1 h4 Session.main_key_refused [OF h1 h2 h3 h4, of demo_config] by blast
qed

end
